theory Spec2Isabelle
  imports Main
begin

section \<open>Domain types (domain/types.ts)\<close>

text \<open>
  The enums of the chess domain.  \<open>SpecialMoveType.None\<close> is written \<open>SpecialNone\<close>,
  since \<open>None\<close> is the empty option of HOL.
\<close>

datatype Color = White | Black

datatype PieceType = Pawn | Knight | Bishop | Rook | Queen | King

datatype GameResult = WhiteWin | BlackWin | Draw | InProgress

datatype GameEndReason =
  Checkmate | Stalemate | Resignation | DrawAgreement
  | InsufficientMaterial | ThreefoldRepetition | FiftyMoveRule | Timeout

datatype SpecialMoveType =
  SpecialNone | EnPassant | CastleKingside | CastleQueenside | PawnPromotion

text \<open>
  A square.  The coordinates of the engine are integers (the move generators add and
  subtract offsets and only then test the bounds, so they are \<open>int\<close>, not \<open>nat\<close>).
  The source's field \<open>file\<close> is written \<open>pfile\<close>.
\<close>

record Position =
  pfile :: int
  rank :: int

text \<open>
  The one place where a coordinate that is not an integer arises is the notation parser:
  \<open>parseInt\<close> yields \<open>NaN\<close> on a string without leading digits.  A JavaScript number
  that comes out of \<open>parseInt\<close> is therefore an integer or \<open>NaN\<close>; every comparison
  with \<open>NaN\<close> is false and arithmetic on \<open>NaN\<close> gives \<open>NaN\<close>.
\<close>

datatype number = Num int | NaN

definition numMinus :: "number \<Rightarrow> int \<Rightarrow> number" where
  "numMinus x k = (case x of Num n \<Rightarrow> Num (n - k) | NaN \<Rightarrow> NaN)"

definition numLess :: "number \<Rightarrow> int \<Rightarrow> bool" where
  "numLess x k = (case x of Num n \<Rightarrow> n < k | NaN \<Rightarrow> False)"

definition numGreater :: "number \<Rightarrow> int \<Rightarrow> bool" where
  "numGreater x k = (case x of Num n \<Rightarrow> n > k | NaN \<Rightarrow> False)"

text \<open>\<open>x || d\<close> on a number: \<open>NaN\<close> and \<open>0\<close> are falsy.\<close>

definition numOr :: "number \<Rightarrow> int \<Rightarrow> int" where
  "numOr x d = (case x of Num n \<Rightarrow> (if n = 0 then d else n) | NaN \<Rightarrow> d)"

text \<open>The position a parse returns: its rank is whatever \<open>parseInt\<close> gave, minus one.\<close>

record ParsedPosition =
  parsedFile :: int
  parsedRank :: number

subsection \<open>Strings\<close>

text \<open>
  A string is a list of code units; a \<open>char\<close> stands for a code unit below 256, which
  covers every character the parsers distinguish.  \<open>codeUnit\<close> is \<open>charCodeAt\<close> on a
  one-character string, and strings of length one are compared through it.
\<close>

definition codeUnit :: "char \<Rightarrow> int" where
  "codeUnit c = of_char c"

definition isDigit :: "char \<Rightarrow> bool" where
  "isDigit c = (codeUnit (CHR ''0'') \<le> codeUnit c \<and> codeUnit c \<le> codeUnit (CHR ''9''))"

text \<open>The white space of \<open>trim\<close>, \<open>\s\<close> and \<open>parseInt\<close> (the code units below 256).\<close>

definition isWhiteSpace :: "char \<Rightarrow> bool" where
  "isWhiteSpace c = (codeUnit c \<in> {9, 10, 11, 12, 13, 32, 160})"

definition digitChar :: "nat \<Rightarrow> char" where
  "digitChar n = char_of (48 + int n)"

function natToString :: "nat \<Rightarrow> string" where
  "natToString n =
     (if n < 10 then [digitChar n] else natToString (n div 10) @ [digitChar (n mod 10)])"
  by pat_completeness auto
termination
  by (relation "measure (\<lambda>n. n)") auto

declare natToString.simps [simp del]

text \<open>\<open>Number.prototype.toString\<close> on an integer.\<close>

definition intToString :: "int \<Rightarrow> string" where
  "intToString i = (if i < 0 then CHR ''-'' # natToString (nat (- i)) else natToString (nat i))"

text \<open>
  \<open>parseInt(s, 10)\<close>: leading white space is skipped, one sign is read, then the longest
  run of decimal digits; without a digit the result is \<open>NaN\<close>.
\<close>

definition digitsValue :: "string \<Rightarrow> int" where
  "digitsValue ds = foldl (\<lambda>a c. 10 * a + (codeUnit c - 48)) 0 ds"

definition parseInt :: "string \<Rightarrow> number" where
  "parseInt s =
     (let t = dropWhile isWhiteSpace s;
          neg = (case t of [] \<Rightarrow> False | c # _ \<Rightarrow> c = CHR ''-'');
          u = (case t of [] \<Rightarrow> [] | c # r \<Rightarrow> if c = CHR ''-'' \<or> c = CHR ''+'' then r else t);
          ds = takeWhile isDigit u
      in if ds = [] then NaN
         else Num (if neg then - digitsValue ds else digitsValue ds))"

subsection \<open>PositionUtils and ColorUtils\<close>

definition toAlgebraic :: "Position \<Rightarrow> string" where
  "toAlgebraic pos =
     (let file = char_of (codeUnit (CHR ''a'') + pfile pos);
          rankStr = intToString (rank pos + 1)
      in file # rankStr)"

text \<open>
  \<open>fromAlgebraic\<close> throws an \<open>Error\<close> (\<open>Inl\<close> with its message) or returns the
  position.  The two range tests on the rank compare a number that may be \<open>NaN\<close>.
\<close>

definition fromAlgebraic :: "string \<Rightarrow> string + ParsedPosition" where
  "fromAlgebraic notation =
     (if length notation \<noteq> 2 then Inl (''Invalid algebraic notation: '' @ notation)
      else
        let file = codeUnit (notation ! 0) - codeUnit (CHR ''a'');
            rk = numMinus (parseInt [notation ! 1]) 1
        in if file < 0 \<or> file > 7 \<or> numLess rk 0 \<or> numGreater rk 7
           then Inl (''Invalid algebraic notation: '' @ notation)
           else Inr \<lparr>parsedFile = file, parsedRank = rk\<rparr>)"

definition isValid :: "Position \<Rightarrow> bool" where
  "isValid pos = (pfile pos \<ge> 0 \<and> pfile pos \<le> 7 \<and> rank pos \<ge> 0 \<and> rank pos \<le> 7)"

definition equals :: "Position \<Rightarrow> Position \<Rightarrow> bool" where
  "equals a b = (pfile a = pfile b \<and> rank a = rank b)"

definition create :: "int \<Rightarrow> int \<Rightarrow> Position" where
  "create f r = \<lparr>pfile = f, rank = r\<rparr>"

definition opposite :: "Color \<Rightarrow> Color" where
  "opposite c = (if c = White then Black else White)"

section \<open>Pieces (domain/piece.ts)\<close>

record Piece =
  type :: PieceType
  color :: Color
  position :: Position
  hasMoved :: bool

text \<open>The constructor, whose last argument defaults to \<open>false\<close>.\<close>

definition newPiece :: "PieceType \<Rightarrow> Color \<Rightarrow> Position \<Rightarrow> Piece" where
  "newPiece t c pos = \<lparr>type = t, color = c, position = pos, hasMoved = False\<rparr>"

definition moveTo :: "Piece \<Rightarrow> Position \<Rightarrow> Piece" where
  "moveTo p newPosition =
     \<lparr>type = type p, color = color p, position = newPosition, hasMoved = True\<rparr>"

definition clonePiece :: "Piece \<Rightarrow> Piece" where
  "clonePiece p =
     \<lparr>type = type p, color = color p,
      position = \<lparr>pfile = pfile (position p), rank = rank (position p)\<rparr>,
      hasMoved = hasMoved p\<rparr>"

text \<open>\<open>promote\<close> throws on a piece that is no pawn and on a target of pawn or king.\<close>

definition promote :: "Piece \<Rightarrow> PieceType \<Rightarrow> string + Piece" where
  "promote p newType =
     (if type p \<noteq> Pawn then Inl ''Only pawns can be promoted''
      else if newType = Pawn \<or> newType = King then Inl ''Cannot promote to pawn or king''
      else Inr \<lparr>type = newType, color = color p, position = position p, hasMoved = True\<rparr>)"

section \<open>The board (domain/board.ts)\<close>

text \<open>
  The board is a JavaScript \<open>Map\<close> from position keys to pieces.  A \<open>Map\<close> keeps its
  entries in insertion order, and \<open>getKing\<close> and the move generators read them in that
  order, so the model is an association list: \<open>set\<close> on a key that is present replaces
  the value where it stands, \<open>set\<close> on a new key appends, \<open>delete\<close> removes the entry.

  The key of a position is the string of its two coordinates around a comma.  On integers
  this string determines both coordinates, so the model takes the pair itself as the key.
\<close>

type_synonym PositionKey = "int \<times> int"

type_synonym Board = "(PositionKey \<times> Piece) list"

definition getPositionKey :: "Position \<Rightarrow> PositionKey" where
  "getPositionKey pos = (pfile pos, rank pos)"

fun mapSet :: "('k \<times> 'v) list \<Rightarrow> 'k \<Rightarrow> 'v \<Rightarrow> ('k \<times> 'v) list" where
  "mapSet [] k v = [(k, v)]"
| "mapSet ((k', v') # es) k v = (if k' = k then (k, v) # es else (k', v') # mapSet es k v)"

fun mapDelete :: "('k \<times> 'v) list \<Rightarrow> 'k \<Rightarrow> ('k \<times> 'v) list" where
  "mapDelete [] k = []"
| "mapDelete ((k', v') # es) k = (if k' = k then es else (k', v') # mapDelete es k)"

definition getPiece :: "Board \<Rightarrow> Position \<Rightarrow> Piece option" where
  "getPiece b pos = map_of b (getPositionKey pos)"

definition setPiece :: "Board \<Rightarrow> Piece \<Rightarrow> Board" where
  "setPiece b p = mapSet b (getPositionKey (position p)) p"

definition removePiece :: "Board \<Rightarrow> Position \<Rightarrow> Board" where
  "removePiece b pos = mapDelete b (getPositionKey pos)"

text \<open>The constructor sets the pieces of its list one after the other.\<close>

definition newBoard :: "Piece list \<Rightarrow> Board" where
  "newBoard pieces = foldl setPiece [] pieces"

text \<open>\<open>movePiece\<close> throws when the source square is empty, before it changes anything.\<close>

definition movePiece :: "Board \<Rightarrow> Position \<Rightarrow> Position \<Rightarrow> string + Board" where
  "movePiece b src dst =
     (case getPiece b src of
        None \<Rightarrow> Inl (''No piece at position '' @ toAlgebraic src)
      | Some p \<Rightarrow> Inr (setPiece (removePiece b src) (moveTo p dst)))"

definition getAllPieces :: "Board \<Rightarrow> Piece list" where
  "getAllPieces b = map snd b"

definition getPiecesByColor :: "Board \<Rightarrow> Color \<Rightarrow> Piece list" where
  "getPiecesByColor b c = filter (\<lambda>p. color p = c) (getAllPieces b)"

definition getPiecesByType :: "Board \<Rightarrow> PieceType \<Rightarrow> Piece list" where
  "getPiecesByType b t = filter (\<lambda>p. type p = t) (getAllPieces b)"

definition getKing :: "Board \<Rightarrow> Color \<Rightarrow> Piece option" where
  "getKing b c = find (\<lambda>p. type p = King \<and> color p = c) (getAllPieces b)"

definition isEmpty :: "Board \<Rightarrow> Position \<Rightarrow> bool" where
  "isEmpty b pos = (getPiece b pos = None)"

definition isOpponentPiece :: "Board \<Rightarrow> Position \<Rightarrow> Color \<Rightarrow> bool" where
  "isOpponentPiece b pos c = (case getPiece b pos of None \<Rightarrow> False | Some p \<Rightarrow> color p \<noteq> c)"

definition cloneBoard :: "Board \<Rightarrow> Board" where
  "cloneBoard b = newBoard (map clonePiece (getAllPieces b))"

definition createStandard :: Board where
  "createStandard =
     newBoard
       (concat (map (\<lambda>f. [newPiece Pawn White \<lparr>pfile = f, rank = 1\<rparr>,
                           newPiece Pawn Black \<lparr>pfile = f, rank = 6\<rparr>]) [0, 1, 2, 3, 4, 5, 6, 7])
        @ [newPiece Rook White \<lparr>pfile = 0, rank = 0\<rparr>,
           newPiece Rook White \<lparr>pfile = 7, rank = 0\<rparr>,
           newPiece Rook Black \<lparr>pfile = 0, rank = 7\<rparr>,
           newPiece Rook Black \<lparr>pfile = 7, rank = 7\<rparr>,
           newPiece Knight White \<lparr>pfile = 1, rank = 0\<rparr>,
           newPiece Knight White \<lparr>pfile = 6, rank = 0\<rparr>,
           newPiece Knight Black \<lparr>pfile = 1, rank = 7\<rparr>,
           newPiece Knight Black \<lparr>pfile = 6, rank = 7\<rparr>,
           newPiece Bishop White \<lparr>pfile = 2, rank = 0\<rparr>,
           newPiece Bishop White \<lparr>pfile = 5, rank = 0\<rparr>,
           newPiece Bishop Black \<lparr>pfile = 2, rank = 7\<rparr>,
           newPiece Bishop Black \<lparr>pfile = 5, rank = 7\<rparr>,
           newPiece Queen White \<lparr>pfile = 3, rank = 0\<rparr>,
           newPiece Queen Black \<lparr>pfile = 3, rank = 7\<rparr>,
           newPiece King White \<lparr>pfile = 4, rank = 0\<rparr>,
           newPiece King Black \<lparr>pfile = 4, rank = 7\<rparr>])"

definition createEmpty :: Board where
  "createEmpty = newBoard []"

subsection \<open>Board.fromFEN\<close>

text \<open>\<open>String.prototype.split\<close> on a one-character separator.\<close>

fun splitChar :: "char \<Rightarrow> string \<Rightarrow> string list" where
  "splitChar sep [] = [[]]"
| "splitChar sep (c # cs) =
     (if c = sep then [] # splitChar sep cs
      else (case splitChar sep cs of [] \<Rightarrow> [[c]] | r # rs \<Rightarrow> (c # r) # rs))"

text \<open>
  \<open>toUpperCase\<close> on one character.  Only the letters a to z are mapped; a character
  beyond ASCII never maps onto one of the six piece letters, so the \<open>switch\<close> below takes
  its default branch on it either way.
\<close>

definition toUpperCase :: "char \<Rightarrow> char" where
  "toUpperCase c =
     (if codeUnit (CHR ''a'') \<le> codeUnit c \<and> codeUnit c \<le> codeUnit (CHR ''z'')
      then char_of (codeUnit c - 32) else c)"

text \<open>The four castling rights read off the rights string: K, Q, k, q.\<close>

record CastlingRights =
  canWhiteCastleKingside :: bool
  canWhiteCastleQueenside :: bool
  canBlackCastleKingside :: bool
  canBlackCastleQueenside :: bool

definition parseCastlingRights :: "string \<Rightarrow> CastlingRights" where
  "parseCastlingRights castlingRights =
     \<lparr>canWhiteCastleKingside = (CHR ''K'' \<in> set castlingRights),
      canWhiteCastleQueenside = (CHR ''Q'' \<in> set castlingRights),
      canBlackCastleKingside = (CHR ''k'' \<in> set castlingRights),
      canBlackCastleQueenside = (CHR ''q'' \<in> set castlingRights)\<rparr>"

definition pieceTypeOfLetter :: "char \<Rightarrow> PieceType option" where
  "pieceTypeOfLetter pieceChar =
     (if pieceChar = CHR ''K'' then Some King
      else if pieceChar = CHR ''Q'' then Some Queen
      else if pieceChar = CHR ''R'' then Some Rook
      else if pieceChar = CHR ''B'' then Some Bishop
      else if pieceChar = CHR ''N'' then Some Knight
      else if pieceChar = CHR ''P'' then Some Pawn
      else None)"

text \<open>The \<open>hasMoved\<close> flag that \<open>fromFEN\<close> reconstructs for a piece.\<close>

definition fenHasMoved :: "CastlingRights \<Rightarrow> PieceType \<Rightarrow> Color \<Rightarrow> int \<Rightarrow> int \<Rightarrow> bool" where
  "fenHasMoved cr pieceType c f r =
     (if pieceType = King then
        (if c = White \<and> f = 4 \<and> r = 0
           then \<not> (canWhiteCastleKingside cr \<or> canWhiteCastleQueenside cr)
         else if c = Black \<and> f = 4 \<and> r = 7
           then \<not> (canBlackCastleKingside cr \<or> canBlackCastleQueenside cr)
         else True)
      else if pieceType = Rook then
        (if c = White \<and> r = 0 then
           (if f = 7 then \<not> canWhiteCastleKingside cr
            else if f = 0 then \<not> canWhiteCastleQueenside cr else True)
         else if c = Black \<and> r = 7 then
           (if f = 7 then \<not> canBlackCastleKingside cr
            else if f = 0 then \<not> canBlackCastleQueenside cr else True)
         else True)
      else if pieceType = Pawn then
        (if (c = White \<and> r = 1) \<or> (c = Black \<and> r = 6) then False else True)
      else True)"

text \<open>
  One rank of the placement: the loop over its characters, carrying the file counter and
  the pieces pushed so far.  A digit 1 to 8 advances the file by its value; any other
  character must be a piece letter, or the parse throws.
\<close>

fun parseRow :: "CastlingRights \<Rightarrow> int \<Rightarrow> string \<Rightarrow> int \<Rightarrow> Piece list \<Rightarrow> string + (int \<times> Piece list)" where
  "parseRow cr r [] f pieces = Inr (f, pieces)"
| "parseRow cr r (ch # row) f pieces =
     (if codeUnit ch \<ge> codeUnit (CHR ''1'') \<and> codeUnit ch \<le> codeUnit (CHR ''8'')
      then parseRow cr r row (f + (codeUnit ch - 48)) pieces
      else
        let c = (if ch = toUpperCase ch then White else Black);
            pieceChar = toUpperCase ch
        in (case pieceTypeOfLetter pieceChar of
              None \<Rightarrow> Inl (''Invalid FEN: unknown piece '' @ [ch])
            | Some pieceType \<Rightarrow>
                parseRow cr r row (f + 1)
                  (pieces @ [\<lparr>type = pieceType, color = c, position = \<lparr>pfile = f, rank = r\<rparr>,
                              hasMoved = fenHasMoved cr pieceType c f r\<rparr>])))"

text \<open>The loop over the ranks, from rank 7 down; each row must fill exactly eight files.\<close>

fun parseRows :: "CastlingRights \<Rightarrow> string list \<Rightarrow> int \<Rightarrow> Piece list \<Rightarrow> string + Piece list" where
  "parseRows cr [] r pieces = Inr pieces"
| "parseRows cr (row # rows) r pieces =
     (case parseRow cr r row 0 pieces of
        Inl e \<Rightarrow> Inl e
      | Inr (f, pieces') \<Rightarrow>
          if f \<noteq> 8
          then Inl (''Invalid FEN: rank '' @ intToString (r + 1) @ '' has wrong number of squares'')
          else parseRows cr rows (r - 1) pieces')"

definition boardFromFEN :: "string \<Rightarrow> string \<Rightarrow> string + Board" where
  "boardFromFEN fen castlingRights =
     (let rows = splitChar (CHR ''/'') fen in
      if length rows \<noteq> 8 then Inl ''Invalid FEN: must have 8 ranks''
      else (case parseRows (parseCastlingRights castlingRights) rows 7 [] of
              Inl e \<Rightarrow> Inl e
            | Inr pieces \<Rightarrow> Inr (newBoard pieces)))"

section \<open>Moves (domain/move.ts)\<close>

text \<open>The source's fields \<open>from\<close> and \<open>to\<close> are written \<open>mfrom\<close> and \<open>mto\<close>.\<close>

record Move =
  mfrom :: Position
  mto :: Position
  piece :: Piece
  capturedPiece :: "Piece option"
  specialMove :: SpecialMoveType
  promotionType :: "PieceType option"

definition isCastling :: "Move \<Rightarrow> bool" where
  "isCastling m = (specialMove m = CastleKingside \<or> specialMove m = CastleQueenside)"

definition isEnPassant :: "Move \<Rightarrow> bool" where
  "isEnPassant m = (specialMove m = EnPassant)"

definition isPromotion :: "Move \<Rightarrow> bool" where
  "isPromotion m = (specialMove m = PawnPromotion)"

section \<open>Piece movement rules (domain/rules/pieceRules.ts)\<close>

definition pawnMoves :: "Piece \<Rightarrow> Board \<Rightarrow> Position list" where
  "pawnMoves p b =
     (let direction = (if color p = White then 1 else - 1);
          startRank = (if color p = White then 1 else 6);
          f = pfile (position p);
          r = rank (position p);
          oneForward = \<lparr>pfile = f, rank = r + direction\<rparr>;
          twoForward = \<lparr>pfile = f, rank = r + 2 * direction\<rparr>;
          forward =
            (if isValid oneForward \<and> isEmpty b oneForward
             then oneForward # (if r = startRank \<and> isEmpty b twoForward then [twoForward] else [])
             else []);
          captureFiles = [f - 1, f + 1];
          captures =
            filter (\<lambda>capturePos. isValid capturePos \<and> isOpponentPiece b capturePos (color p))
              (map (\<lambda>captureFile. \<lparr>pfile = captureFile, rank = r + direction\<rparr>) captureFiles)
      in forward @ captures)"

text \<open>
  Knight and king test each candidate square: in bounds, and empty or held by the other
  colour.
\<close>

definition freeOrOpponent :: "Piece \<Rightarrow> Board \<Rightarrow> Position \<Rightarrow> bool" where
  "freeOrOpponent p b mv =
     (isValid mv \<and> (case getPiece b mv of None \<Rightarrow> True | Some targetPiece \<Rightarrow> color targetPiece \<noteq> color p))"

definition knightMoves :: "Piece \<Rightarrow> Board \<Rightarrow> Position list" where
  "knightMoves p b =
     (let f = pfile (position p); r = rank (position p) in
      filter (freeOrOpponent p b)
        [\<lparr>pfile = f + 2, rank = r + 1\<rparr>, \<lparr>pfile = f + 2, rank = r - 1\<rparr>,
         \<lparr>pfile = f - 2, rank = r + 1\<rparr>, \<lparr>pfile = f - 2, rank = r - 1\<rparr>,
         \<lparr>pfile = f + 1, rank = r + 2\<rparr>, \<lparr>pfile = f + 1, rank = r - 2\<rparr>,
         \<lparr>pfile = f - 1, rank = r + 2\<rparr>, \<lparr>pfile = f - 1, rank = r - 2\<rparr>])"

definition kingMoves :: "Piece \<Rightarrow> Board \<Rightarrow> Position list" where
  "kingMoves p b =
     (let f = pfile (position p); r = rank (position p) in
      filter (freeOrOpponent p b)
        [\<lparr>pfile = f + 1, rank = r\<rparr>, \<lparr>pfile = f - 1, rank = r\<rparr>,
         \<lparr>pfile = f, rank = r + 1\<rparr>, \<lparr>pfile = f, rank = r - 1\<rparr>,
         \<lparr>pfile = f + 1, rank = r + 1\<rparr>, \<lparr>pfile = f + 1, rank = r - 1\<rparr>,
         \<lparr>pfile = f - 1, rank = r + 1\<rparr>, \<lparr>pfile = f - 1, rank = r - 1\<rparr>])"

text \<open>
  The ray walk of bishop, rook and queen: the \<open>while\<close> loop of one direction, from the
  current square on.  It stops at the edge and at the first piece, which it includes when
  it is of the other colour.  The direction tables of the source hold no zero step; the
  test \<open>dir \<noteq> (0, 0)\<close> records that, and the walk terminates because of it.
\<close>

function rayMoves :: "Board \<Rightarrow> Color \<Rightarrow> int \<times> int \<Rightarrow> int \<Rightarrow> int \<Rightarrow> Position list" where
  "rayMoves b c dir currentFile currentRank =
     (if currentFile \<ge> 0 \<and> currentFile \<le> 7 \<and> currentRank \<ge> 0 \<and> currentRank \<le> 7
         \<and> dir \<noteq> (0, 0)
      then
        (case getPiece b \<lparr>pfile = currentFile, rank = currentRank\<rparr> of
           None \<Rightarrow>
             \<lparr>pfile = currentFile, rank = currentRank\<rparr>
               # rayMoves b c dir (currentFile + fst dir) (currentRank + snd dir)
         | Some targetPiece \<Rightarrow>
             (if color targetPiece \<noteq> c then [\<lparr>pfile = currentFile, rank = currentRank\<rparr>] else []))
      else [])"
  by pat_completeness auto
termination
  by (relation "measure (\<lambda>(b, c, dir, f, r).
        if fst dir > 0 then nat (8 - f)
        else if fst dir < 0 then nat (f + 1)
        else if snd dir > 0 then nat (8 - r)
        else nat (r + 1))") (auto split: if_splits)

declare rayMoves.simps [simp del]

definition walkDirections :: "Piece \<Rightarrow> Board \<Rightarrow> (int \<times> int) list \<Rightarrow> Position list" where
  "walkDirections p b directions =
     concat (map (\<lambda>dir. rayMoves b (color p) dir
                           (pfile (position p) + fst dir) (rank (position p) + snd dir))
                 directions)"

definition getDiagonalMoves :: "Piece \<Rightarrow> Board \<Rightarrow> Position list" where
  "getDiagonalMoves p b = walkDirections p b [(1, 1), (1, - 1), (- 1, 1), (- 1, - 1)]"

definition getStraightMoves :: "Piece \<Rightarrow> Board \<Rightarrow> Position list" where
  "getStraightMoves p b = walkDirections p b [(1, 0), (- 1, 0), (0, 1), (0, - 1)]"

text \<open>
  \<open>PieceRulesFactory.getPossibleMoves\<close>: the rule table has an entry for each of the six
  piece types, so the lookup never fails.
\<close>

definition getPossibleMoves :: "Piece \<Rightarrow> Board \<Rightarrow> Position list" where
  "getPossibleMoves p b =
     (case type p of
        Pawn \<Rightarrow> pawnMoves p b
      | Knight \<Rightarrow> knightMoves p b
      | Bishop \<Rightarrow> getDiagonalMoves p b
      | Rook \<Rightarrow> getStraightMoves p b
      | Queen \<Rightarrow> getStraightMoves p b @ getDiagonalMoves p b
      | King \<Rightarrow> kingMoves p b)"

section \<open>The rules engine (domain/rules/gameRules.ts)\<close>

definition newMove :: "Position \<Rightarrow> Position \<Rightarrow> Piece \<Rightarrow> Piece option \<Rightarrow> SpecialMoveType \<Rightarrow> Move" where
  "newMove src dst p captured special =
     \<lparr>mfrom = src, mto = dst, piece = p, capturedPiece = captured,
      specialMove = special, promotionType = None\<rparr>"

definition isSquareAttacked :: "Board \<Rightarrow> Position \<Rightarrow> Color \<Rightarrow> bool" where
  "isSquareAttacked b pos defenderColor =
     (let attackerColor = opposite defenderColor;
          attackers = getPiecesByColor b attackerColor
      in list_ex (\<lambda>attacker. list_ex (\<lambda>mv. equals mv pos) (getPossibleMoves attacker b)) attackers)"

definition isInCheck :: "Board \<Rightarrow> Color \<Rightarrow> bool" where
  "isInCheck b c =
     (case getKing b c of
        None \<Rightarrow> False
      | Some king \<Rightarrow> isSquareAttacked b (position king) c)"

text \<open>
  The private \<open>GameRules.applyMove\<close>, the simplified application that \<open>isMoveLegal\<close>
  runs on a clone of the board.
\<close>

definition rulesApplyMove :: "Board \<Rightarrow> Move \<Rightarrow> Board" where
  "rulesApplyMove b m =
     (let b1 = removePiece b (mfrom m);
          b2 = (case capturedPiece m of None \<Rightarrow> b1 | Some cp \<Rightarrow> removePiece b1 (position cp))
      in setPiece b2 (moveTo (piece m) (mto m)))"

definition isMoveLegal :: "Move \<Rightarrow> Board \<Rightarrow> bool" where
  "isMoveLegal m b =
     (let testBoard = rulesApplyMove (cloneBoard b) m
      in \<not> isInCheck testBoard (color (piece m)))"

definition getCastlingMoves :: "Piece \<Rightarrow> Board \<Rightarrow> Move list" where
  "getCastlingMoves king b =
     (if type king \<noteq> King \<or> hasMoved king then []
      else
        let r = rank (position king);
            kingside =
              (case getPiece b \<lparr>pfile = 7, rank = r\<rparr> of
                 None \<Rightarrow> []
               | Some kingsideRook \<Rightarrow>
                   if type kingsideRook = Rook \<and> \<not> hasMoved kingsideRook
                      \<and> isEmpty b \<lparr>pfile = 5, rank = r\<rparr>
                      \<and> isEmpty b \<lparr>pfile = 6, rank = r\<rparr>
                      \<and> \<not> isSquareAttacked b \<lparr>pfile = 4, rank = r\<rparr> (color king)
                      \<and> \<not> isSquareAttacked b \<lparr>pfile = 5, rank = r\<rparr> (color king)
                      \<and> \<not> isSquareAttacked b \<lparr>pfile = 6, rank = r\<rparr> (color king)
                   then [newMove (position king) \<lparr>pfile = 6, rank = r\<rparr> king None CastleKingside]
                   else []);
            queenside =
              (case getPiece b \<lparr>pfile = 0, rank = r\<rparr> of
                 None \<Rightarrow> []
               | Some queensideRook \<Rightarrow>
                   if type queensideRook = Rook \<and> \<not> hasMoved queensideRook
                      \<and> isEmpty b \<lparr>pfile = 1, rank = r\<rparr>
                      \<and> isEmpty b \<lparr>pfile = 2, rank = r\<rparr>
                      \<and> isEmpty b \<lparr>pfile = 3, rank = r\<rparr>
                      \<and> \<not> isSquareAttacked b \<lparr>pfile = 4, rank = r\<rparr> (color king)
                      \<and> \<not> isSquareAttacked b \<lparr>pfile = 3, rank = r\<rparr> (color king)
                      \<and> \<not> isSquareAttacked b \<lparr>pfile = 2, rank = r\<rparr> (color king)
                   then [newMove (position king) \<lparr>pfile = 2, rank = r\<rparr> king None CastleQueenside]
                   else [])
        in kingside @ queenside)"

text \<open>
  The loop of \<open>getEnPassantMove\<close> over the two capture files; it returns at the first
  file that yields a legal capture.
\<close>

fun enPassantLoop :: "Piece \<Rightarrow> Board \<Rightarrow> Position \<Rightarrow> int \<Rightarrow> int list \<Rightarrow> Move option" where
  "enPassantLoop pawn b enPassantTarget direction [] = None"
| "enPassantLoop pawn b enPassantTarget direction (captureFile # rest) =
     (if captureFile = pfile enPassantTarget
         \<and> rank (position pawn) + direction = rank enPassantTarget
      then
        (case getPiece b \<lparr>pfile = pfile enPassantTarget, rank = rank (position pawn)\<rparr> of
           None \<Rightarrow> enPassantLoop pawn b enPassantTarget direction rest
         | Some capturedPawn \<Rightarrow>
             if type capturedPawn = Pawn
                \<and> isMoveLegal (newMove (position pawn) enPassantTarget pawn (Some capturedPawn) EnPassant) b
             then Some (newMove (position pawn) enPassantTarget pawn (Some capturedPawn) EnPassant)
             else enPassantLoop pawn b enPassantTarget direction rest)
      else enPassantLoop pawn b enPassantTarget direction rest)"

definition getEnPassantMove :: "Piece \<Rightarrow> Board \<Rightarrow> Position \<Rightarrow> Move option" where
  "getEnPassantMove pawn b enPassantTarget =
     (if type pawn \<noteq> Pawn then None
      else
        let direction = (if color pawn = White then 1 else - 1);
            captureFiles = [pfile (position pawn) - 1, pfile (position pawn) + 1]
        in enPassantLoop pawn b enPassantTarget direction captureFiles)"

definition getLegalMoves :: "Piece \<Rightarrow> Board \<Rightarrow> Position option \<Rightarrow> Move list" where
  "getLegalMoves p b enPassantTarget =
     (let pseudoLegalMoves = getPossibleMoves p b;
          legalMoves =
            filter (\<lambda>m. isMoveLegal m b)
              (map (\<lambda>targetPos. newMove (position p) targetPos p (getPiece b targetPos) SpecialNone)
                   pseudoLegalMoves);
          castling = (if type p = King then getCastlingMoves p b else []);
          enPassant =
            (if type p = Pawn
             then (case enPassantTarget of
                     None \<Rightarrow> []
                   | Some target \<Rightarrow>
                       (case getEnPassantMove p b target of None \<Rightarrow> [] | Some m \<Rightarrow> [m]))
             else [])
      in legalMoves @ castling @ enPassant)"

definition getAllLegalMoves :: "Board \<Rightarrow> Color \<Rightarrow> Position option \<Rightarrow> Move list" where
  "getAllLegalMoves b c enPassantTarget =
     concat (map (\<lambda>p. getLegalMoves p b enPassantTarget) (getPiecesByColor b c))"

definition isCheckmate :: "Board \<Rightarrow> Color \<Rightarrow> Position option \<Rightarrow> bool" where
  "isCheckmate b c enPassantTarget =
     (if \<not> isInCheck b c then False
      else getAllLegalMoves b c enPassantTarget = [])"

definition isStalemate :: "Board \<Rightarrow> Color \<Rightarrow> Position option \<Rightarrow> bool" where
  "isStalemate b c enPassantTarget =
     (if isInCheck b c then False
      else getAllLegalMoves b c enPassantTarget = [])"

text \<open>
  The remainder operator \<open>%\<close> of JavaScript truncates towards zero: the result has the
  sign of the dividend.
\<close>

definition jsRem :: "int \<Rightarrow> int \<Rightarrow> int" where
  "jsRem a n = sgn a * (\<bar>a\<bar> mod \<bar>n\<bar>)"

definition hasInsufficientMaterial :: "Board \<Rightarrow> bool" where
  "hasInsufficientMaterial b =
     (let pieces = getAllPieces b;
          nonKings = filter (\<lambda>p. type p \<noteq> King) pieces;
          bishops = filter (\<lambda>p. type p = Bishop) pieces
      in if length pieces = 2 then True
         else if length pieces = 3 \<and> length nonKings = 1
           then (type (nonKings ! 0) = Bishop \<or> type (nonKings ! 0) = Knight)
         else if length pieces = 4 \<and> length bishops = 2
           then (let square1 = jsRem (pfile (position (bishops ! 0)) + rank (position (bishops ! 0))) 2;
                     square2 = jsRem (pfile (position (bishops ! 1)) + rank (position (bishops ! 1))) 2
                 in square1 = square2)
         else False)"

section \<open>Game state (domain/gameState.ts)\<close>

text \<open>
  The state of a game.  The en-passant target is a position of the engine in every state
  that \<open>makeMove\<close> handles; the state that \<open>fromFEN\<close> builds carries the position as the
  notation parser returned it, so the record leaves the type of the target open.
\<close>

record 'p GameState =
  board :: Board
  currentTurn :: Color
  moveHistory :: "Move list"
  enPassantTarget :: "'p option"
  halfMoveClock :: int
  fullMoveNumber :: int
  result :: GameResult
  endReason :: "GameEndReason option"

text \<open>
  \<open>MoveResult\<close>; its three flags are written with the suffix \<open>Flag\<close>, the plain names
  being those of the rules.
\<close>

record MoveResult =
  success :: bool
  move :: "Move option"
  newState :: "Position GameState option"
  error :: "string option"
  isCheckFlag :: "bool option"
  isCheckmateFlag :: "bool option"
  isStalemateFlag :: "bool option"

definition createCustom :: "Board \<Rightarrow> Color \<Rightarrow> Position GameState" where
  "createCustom b turn =
     \<lparr>board = b, currentTurn = turn, moveHistory = [], enPassantTarget = None,
      halfMoveClock = 0, fullMoveNumber = 1, result = InProgress, endReason = None\<rparr>"

definition createStandardGame :: "Position GameState" where
  "createStandardGame = createCustom createStandard White"

definition getLegalMovesForPiece :: "Position GameState \<Rightarrow> Piece \<Rightarrow> Move list" where
  "getLegalMovesForPiece s p =
     (if color p \<noteq> currentTurn s then []
      else getLegalMoves p (board s) (enPassantTarget s))"

definition checkGameEnd ::
  "Board \<Rightarrow> Color \<Rightarrow> Position option \<Rightarrow> int \<Rightarrow> Move list \<Rightarrow> GameResult \<times> GameEndReason option" where
  "checkGameEnd b turn enPassant clock history =
     (if isCheckmate b turn enPassant
        then (if turn = White then BlackWin else WhiteWin, Some Checkmate)
      else if isStalemate b turn enPassant then (Draw, Some Stalemate)
      else if hasInsufficientMaterial b then (Draw, Some InsufficientMaterial)
      else if clock \<ge> 100 then (Draw, Some FiftyMoveRule)
      else (InProgress, None))"

definition applyCastling :: "Board \<Rightarrow> Move \<Rightarrow> Board" where
  "applyCastling b m =
     (let r = rank (mfrom m);
          b1 = removePiece b (mfrom m);
          b2 = setPiece b1 (moveTo (piece m) (mto m))
      in if specialMove m = CastleKingside then
           (case getPiece b2 \<lparr>pfile = 7, rank = r\<rparr> of
              None \<Rightarrow> b2
            | Some rook \<Rightarrow>
                setPiece (removePiece b2 \<lparr>pfile = 7, rank = r\<rparr>) (moveTo rook \<lparr>pfile = 5, rank = r\<rparr>))
         else if specialMove m = CastleQueenside then
           (case getPiece b2 \<lparr>pfile = 0, rank = r\<rparr> of
              None \<Rightarrow> b2
            | Some rook \<Rightarrow>
                setPiece (removePiece b2 \<lparr>pfile = 0, rank = r\<rparr>) (moveTo rook \<lparr>pfile = 3, rank = r\<rparr>))
         else b2)"

definition applyEnPassant :: "Board \<Rightarrow> Move \<Rightarrow> Board" where
  "applyEnPassant b m =
     (let b1 = removePiece b (mfrom m);
          b2 = setPiece b1 (moveTo (piece m) (mto m))
      in (case capturedPiece m of None \<Rightarrow> b2 | Some cp \<Rightarrow> removePiece b2 (position cp)))"

text \<open>\<open>applyPromotion\<close> passes on what \<open>promote\<close> throws.\<close>

definition applyPromotion :: "Board \<Rightarrow> Move \<Rightarrow> string + Board" where
  "applyPromotion b m =
     (let b1 = removePiece b (mfrom m);
          b2 = (case capturedPiece m of None \<Rightarrow> b1 | Some cp \<Rightarrow> removePiece b1 (position cp))
      in (case promotionType m of
            None \<Rightarrow> Inr b2
          | Some pt \<Rightarrow>
              (case promote (piece m) pt of
                 Inl e \<Rightarrow> Inl e
               | Inr promoted \<Rightarrow> Inr (setPiece b2 (moveTo promoted (mto m))))))"

text \<open>
  The board part of \<open>GameState.applyMove\<close>: the clone of the board, changed as the kind
  of the move says.
\<close>

definition applyMoveToBoard :: "Board \<Rightarrow> Move \<Rightarrow> string + Board" where
  "applyMoveToBoard b m =
     (let nb = cloneBoard b in
      if isCastling m then Inr (applyCastling nb m)
      else if isEnPassant m then Inr (applyEnPassant nb m)
      else if isPromotion m then applyPromotion nb m
      else Inr (rulesApplyMove nb m))"

text \<open>
  \<open>GameState.applyMove\<close>.  The en-passant target of a double step is the midpoint of the
  two ranks, whose sum is even there, so the division is exact.
\<close>

definition applyMove :: "Position GameState \<Rightarrow> Move \<Rightarrow> string + Position GameState" where
  "applyMove s m =
     (case applyMoveToBoard (board s) m of
        Inl e \<Rightarrow> Inl e
      | Inr nb \<Rightarrow>
          let newEnPassantTarget =
                (if type (piece m) = Pawn \<and> \<bar>rank (mto m) - rank (mfrom m)\<bar> = 2
                 then Some \<lparr>pfile = pfile (mfrom m), rank = (rank (mfrom m) + rank (mto m)) div 2\<rparr>
                 else None);
              newHalfMoveClock =
                (if type (piece m) = Pawn \<or> capturedPiece m \<noteq> None then 0 else halfMoveClock s + 1);
              newMoveHistory = moveHistory s @ [m];
              newFullMoveNumber =
                (if currentTurn s = Black then fullMoveNumber s + 1 else fullMoveNumber s);
              newCurrentTurn = opposite (currentTurn s);
              ended = checkGameEnd nb newCurrentTurn newEnPassantTarget newHalfMoveClock newMoveHistory
          in Inr \<lparr>board = nb, currentTurn = newCurrentTurn, moveHistory = newMoveHistory,
                  enPassantTarget = newEnPassantTarget, halfMoveClock = newHalfMoveClock,
                  fullMoveNumber = newFullMoveNumber, result = fst ended, endReason = snd ended\<rparr>)"

definition failure :: "string \<Rightarrow> MoveResult" where
  "failure msg =
     \<lparr>success = False, move = None, newState = None, error = Some msg,
      isCheckFlag = None, isCheckmateFlag = None, isStalemateFlag = None\<rparr>"

text \<open>The tail of \<open>makeMove\<close>: apply the chosen move and report on the new state.\<close>

definition applyAndReport :: "Position GameState \<Rightarrow> Move \<Rightarrow> string + MoveResult" where
  "applyAndReport s m =
     (case applyMove s m of
        Inl e \<Rightarrow> Inl e
      | Inr ns \<Rightarrow>
          Inr \<lparr>success = True, move = Some m, newState = Some ns, error = None,
               isCheckFlag = Some (isInCheck (board ns) (currentTurn ns)),
               isCheckmateFlag = Some (result ns = WhiteWin \<or> result ns = BlackWin),
               isStalemateFlag = Some (result ns = Draw \<and> endReason ns = Some Stalemate)\<rparr>)"

text \<open>
  \<open>makeMove\<close>: \<open>Inr\<close> is the result object it returns, \<open>Inl\<close> the message of an \<open>Error\<close>
  that escapes it.
\<close>

definition makeMove ::
  "Position GameState \<Rightarrow> Position \<Rightarrow> Position \<Rightarrow> PieceType option \<Rightarrow> string + MoveResult" where
  "makeMove s src dst promo =
     (case getPiece (board s) src of
        None \<Rightarrow> Inr (failure ''No piece at source position'')
      | Some p \<Rightarrow>
          if color p \<noteq> currentTurn s then Inr (failure ''Not your turn'')
          else
            (case find (\<lambda>m. equals (mto m) dst) (getLegalMovesForPiece s p) of
               None \<Rightarrow> Inr (failure ''Illegal move'')
             | Some m \<Rightarrow>
                 if type p = Pawn
                    \<and> ((color p = White \<and> rank dst = 7) \<or> (color p = Black \<and> rank dst = 0))
                 then
                   (case promo of
                      None \<Rightarrow> Inr (failure ''Promotion type required'')
                    | Some pt \<Rightarrow>
                        applyAndReport s
                          \<lparr>mfrom = src, mto = dst, piece = p, capturedPiece = capturedPiece m,
                           specialMove = PawnPromotion, promotionType = Some pt\<rparr>)
                 else applyAndReport s m))"

definition resign :: "Position GameState \<Rightarrow> Position GameState" where
  "resign s =
     s\<lparr>result := (if currentTurn s = White then BlackWin else WhiteWin),
       endReason := Some Resignation\<rparr>"

definition agreeToDraw :: "Position GameState \<Rightarrow> Position GameState" where
  "agreeToDraw s = s\<lparr>result := Draw, endReason := Some DrawAgreement\<rparr>"

subsection \<open>GameState.fromFEN\<close>

text \<open>
  \<open>trim\<close>, and \<open>split\<close> on the regular expression \<open>\s+\<close>: the string is cut at every
  maximal run of white space.
\<close>

definition trim :: "string \<Rightarrow> string" where
  "trim s = rev (dropWhile isWhiteSpace (rev (dropWhile isWhiteSpace s)))"

function splitWhitespace :: "string \<Rightarrow> string list" where
  "splitWhitespace s =
     (if dropWhile (\<lambda>c. \<not> isWhiteSpace c) s = [] then [s]
      else takeWhile (\<lambda>c. \<not> isWhiteSpace c) s
             # splitWhitespace (dropWhile isWhiteSpace (dropWhile (\<lambda>c. \<not> isWhiteSpace c) s)))"
  by pat_completeness auto
termination
proof (relation "measure length")
  show "wf (measure length)" by simp
next
  fix s :: string
  assume ne: "dropWhile (\<lambda>c. \<not> isWhiteSpace c) s \<noteq> []"
  then have "isWhiteSpace (hd (dropWhile (\<lambda>c. \<not> isWhiteSpace c) s))"
    using hd_dropWhile[of "\<lambda>c. \<not> isWhiteSpace c" s] by simp
  with ne have "length (dropWhile isWhiteSpace (dropWhile (\<lambda>c. \<not> isWhiteSpace c) s))
                < length (dropWhile (\<lambda>c. \<not> isWhiteSpace c) s)"
    by (cases "dropWhile (\<lambda>c. \<not> isWhiteSpace c) s") (auto simp: le_imp_less_Suc length_dropWhile_le)
  also have "\<dots> \<le> length s" by (rule length_dropWhile_le)
  finally show "(dropWhile isWhiteSpace (dropWhile (\<lambda>c. \<not> isWhiteSpace c) s), s) \<in> measure length"
    by simp
qed

declare splitWhitespace.simps [simp del]

text \<open>
  \<open>GameState.fromFEN\<close>.  The board is parsed without castling rights (the default
  \<open>-\<close>); an en-passant field that \<open>fromAlgebraic\<close> throws on is dropped by the
  \<open>catch\<close>; the two counters fall back to 0 and 1 when \<open>parseInt\<close> gives \<open>NaN\<close> or
  zero.
\<close>

definition gameStateFromFEN :: "string \<Rightarrow> string + ParsedPosition GameState" where
  "gameStateFromFEN fen =
     (let parts = splitWhitespace (trim fen) in
      if length parts \<noteq> 6 then Inl ''Invalid FEN: must have 6 parts''
      else
        let positionPart = parts ! 0;
            turnPart = parts ! 1;
            enPassantPart = parts ! 3;
            halfMovePart = parts ! 4;
            fullMovePart = parts ! 5
        in (case boardFromFEN positionPart ''-'' of
              Inl e \<Rightarrow> Inl e
            | Inr b \<Rightarrow>
                Inr \<lparr>board = b,
                     currentTurn = (if turnPart = ''w'' then White else Black),
                     moveHistory = [],
                     enPassantTarget =
                       (if enPassantPart \<noteq> ''-''
                        then (case fromAlgebraic enPassantPart of
                                Inl e \<Rightarrow> None
                              | Inr pos \<Rightarrow> Some pos)
                        else None),
                     halfMoveClock = numOr (parseInt halfMovePart) 0,
                     fullMoveNumber = numOr (parseInt fullMovePart) 1,
                     result = InProgress,
                     endReason = None\<rparr>))"

section \<open>Definitions used by the properties\<close>

subsection \<open>Operations on a board, in sequence\<close>

text \<open>
  The four operations that change or copy a board.  \<open>movePiece\<close> throws before it has
  changed anything, so the board after a throwing \<open>movePiece\<close> is the board before it.
\<close>

datatype BoardOp =
  OpSetPiece Piece | OpRemovePiece Position | OpMovePiece Position Position | OpClone

fun applyBoardOp :: "Board \<Rightarrow> BoardOp \<Rightarrow> Board" where
  "applyBoardOp b (OpSetPiece p) = setPiece b p"
| "applyBoardOp b (OpRemovePiece pos) = removePiece b pos"
| "applyBoardOp b (OpMovePiece src dst) =
     (case movePiece b src dst of Inl e \<Rightarrow> b | Inr b' \<Rightarrow> b')"
| "applyBoardOp b OpClone = cloneBoard b"

text \<open>
  The invariant of the store: no key occurs twice, and every entry stands under the key
  of its piece's position.
\<close>

definition keyedByPosition :: "Board \<Rightarrow> bool" where
  "keyedByPosition b =
     (distinct (map fst b) \<and> list_all (\<lambda>e. fst e = getPositionKey (position (snd e))) b)"

text \<open>A piece list that names one square twice, and a run of operations on its board.\<close>

definition examplePieces :: "Piece list" where
  "examplePieces =
     [newPiece King White \<lparr>pfile = 4, rank = 0\<rparr>,
      newPiece Rook White \<lparr>pfile = 0, rank = 0\<rparr>,
      newPiece Knight White \<lparr>pfile = 4, rank = 0\<rparr>,
      newPiece King Black \<lparr>pfile = 7, rank = 7\<rparr>]"

definition exampleOps :: "BoardOp list" where
  "exampleOps =
     [OpSetPiece (newPiece Queen Black \<lparr>pfile = 4, rank = 0\<rparr>),
      OpMovePiece \<lparr>pfile = 4, rank = 0\<rparr> \<lparr>pfile = 0, rank = 0\<rparr>,
      OpMovePiece \<lparr>pfile = 5, rank = 5\<rparr> \<lparr>pfile = 0, rank = 0\<rparr>,
      OpClone,
      OpRemovePiece \<lparr>pfile = 7, rank = 7\<rparr>]"

subsection \<open>Algebraic notation\<close>

text \<open>The strings that match \<open>[a-h][1-8]\<close>.\<close>

definition matchesSquare :: "string \<Rightarrow> bool" where
  "matchesSquare s =
     (case s of
        [f, r] \<Rightarrow>
          codeUnit (CHR ''a'') \<le> codeUnit f \<and> codeUnit f \<le> codeUnit (CHR ''h'')
          \<and> codeUnit (CHR ''1'') \<le> codeUnit r \<and> codeUnit r \<le> codeUnit (CHR ''8'')
      | _ \<Rightarrow> False)"

subsection \<open>Insufficient material, as the specification words it\<close>

text \<open>
  The material that cannot mate: the two kings alone, the two kings and one minor piece,
  or the two kings and two bishops on squares of one colour.  ``The two kings'' are one
  king of each colour.
\<close>

definition kingCount :: "Color \<Rightarrow> Board \<Rightarrow> nat" where
  "kingCount c b = length (filter (\<lambda>p. type p = King \<and> color p = c) (getAllPieces b))"

definition oneKingEach :: "Board \<Rightarrow> bool" where
  "oneKingEach b = (kingCount White b = 1 \<and> kingCount Black b = 1)"

definition allOnBoard :: "Board \<Rightarrow> bool" where
  "allOnBoard b = list_all (\<lambda>p. isValid (position p)) (getAllPieces b)"

definition sameSquareColour :: "Piece \<Rightarrow> Piece \<Rightarrow> bool" where
  "sameSquareColour x y =
     ((pfile (position x) + rank (position x)) mod 2 = (pfile (position y) + rank (position y)) mod 2)"

definition specInsufficientMaterial :: "Board \<Rightarrow> bool" where
  "specInsufficientMaterial b =
     (oneKingEach b \<and>
      (case filter (\<lambda>p. type p \<noteq> King) (getAllPieces b) of
         [] \<Rightarrow> True
       | [m] \<Rightarrow> type m = Bishop \<or> type m = Knight
       | [x, y] \<Rightarrow> type x = Bishop \<and> type y = Bishop \<and> sameSquareColour x y
       | _ \<Rightarrow> False))"

text \<open>A board without kings, and a board of two kings and two bishops on light squares.\<close>

definition twoRooksBoard :: Board where
  "twoRooksBoard = newBoard [newPiece Rook White \<lparr>pfile = 0, rank = 0\<rparr>,
                            newPiece Rook Black \<lparr>pfile = 7, rank = 7\<rparr>]"

definition twoBishopsBoard :: Board where
  "twoBishopsBoard = newBoard [newPiece King White \<lparr>pfile = 4, rank = 0\<rparr>,
                               newPiece Bishop White \<lparr>pfile = 2, rank = 0\<rparr>,
                               newPiece King Black \<lparr>pfile = 4, rank = 7\<rparr>,
                               newPiece Bishop Black \<lparr>pfile = 5, rank = 7\<rparr>]"

subsection \<open>Castling, as the specification words it\<close>

text \<open>
  Attack in the sense of chess.  A pawn attacks its two diagonal-forward squares on the
  board, whether they are occupied or not, and never the squares it advances to.  Any
  other piece moves as it captures, so it attacks the squares of its pseudo-legal moves:
  these are the squares it reaches that do not hold a piece of its own colour.  A square
  is attacked by the opponent of a colour when some piece of the other colour attacks it.
\<close>

definition pawnDirection :: "Color \<Rightarrow> int" where
  "pawnDirection c = (if c = White then 1 else - 1)"

definition pawnAttacks :: "Piece \<Rightarrow> Position \<Rightarrow> bool" where
  "pawnAttacks a sq =
     (isValid sq
      \<and> rank sq = rank (position a) + pawnDirection (color a)
      \<and> (pfile sq = pfile (position a) - 1 \<or> pfile sq = pfile (position a) + 1))"

definition attacks :: "Piece \<Rightarrow> Board \<Rightarrow> Position \<Rightarrow> bool" where
  "attacks a b sq =
     (if type a = Pawn then pawnAttacks a sq
      else list_ex (\<lambda>mv. equals mv sq) (getPossibleMoves a b))"

definition attackedByOpponent :: "Board \<Rightarrow> Position \<Rightarrow> Color \<Rightarrow> bool" where
  "attackedByOpponent b sq c = list_ex (\<lambda>a. attacks a b sq) (getPiecesByColor b (opposite c))"

text \<open>
  The conditions of castling relative to the king's own square: the rook of the side
  stands unmoved in its corner of the king's rank, the squares strictly between king and
  rook are empty, and no square from the king's square to its destination (file 6 or
  file 2) is attacked by the opponent.
\<close>

definition specCastleKingside :: "Piece \<Rightarrow> Board \<Rightarrow> bool" where
  "specCastleKingside king b =
     (let f = pfile (position king); r = rank (position king) in
      \<not> hasMoved king
      \<and> (case getPiece b \<lparr>pfile = 7, rank = r\<rparr> of
            None \<Rightarrow> False
          | Some rook \<Rightarrow> type rook = Rook \<and> \<not> hasMoved rook)
      \<and> list_all (\<lambda>x. isEmpty b \<lparr>pfile = x, rank = r\<rparr>) [f + 1..6]
      \<and> list_all (\<lambda>x. \<not> attackedByOpponent b \<lparr>pfile = x, rank = r\<rparr> (color king))
            [min f 6..max f 6])"

definition specCastleQueenside :: "Piece \<Rightarrow> Board \<Rightarrow> bool" where
  "specCastleQueenside king b =
     (let f = pfile (position king); r = rank (position king) in
      \<not> hasMoved king
      \<and> (case getPiece b \<lparr>pfile = 0, rank = r\<rparr> of
            None \<Rightarrow> False
          | Some rook \<Rightarrow> type rook = Rook \<and> \<not> hasMoved rook)
      \<and> list_all (\<lambda>x. isEmpty b \<lparr>pfile = x, rank = r\<rparr>) [1..f - 1]
      \<and> list_all (\<lambda>x. \<not> attackedByOpponent b \<lparr>pfile = x, rank = r\<rparr> (color king))
            [min f 2..max f 2])"

definition kingsideCastle :: "Piece \<Rightarrow> Move" where
  "kingsideCastle king =
     newMove (position king) \<lparr>pfile = 6, rank = rank (position king)\<rparr> king None CastleKingside"

definition queensideCastle :: "Piece \<Rightarrow> Move" where
  "queensideCastle king =
     newMove (position king) \<lparr>pfile = 2, rank = rank (position king)\<rparr> king None CastleQueenside"

text \<open>
  A pawn bears on a square when it attacks the square while the square is empty or holds
  a piece of the pawn's own colour, or when the square lies one step ahead of it, or two
  steps ahead of its starting rank.  A stretch of a rank is clear of the pawns of a
  king's opponent when none of them bears on any of its squares.
\<close>

definition pawnAdvancesOnto :: "Piece \<Rightarrow> Position \<Rightarrow> bool" where
  "pawnAdvancesOnto a sq =
     (pfile sq = pfile (position a)
      \<and> (rank sq = rank (position a) + pawnDirection (color a)
         \<or> (rank (position a) = (if color a = White then 1 else 6)
            \<and> rank sq = rank (position a) + 2 * pawnDirection (color a))))"

definition pawnBearsOn :: "Piece \<Rightarrow> Board \<Rightarrow> Position \<Rightarrow> bool" where
  "pawnBearsOn a b sq =
     (type a = Pawn
      \<and> ((pawnAttacks a sq \<and> \<not> isOpponentPiece b sq (color a)) \<or> pawnAdvancesOnto a sq))"

definition clearOfPawns :: "Board \<Rightarrow> Color \<Rightarrow> int \<Rightarrow> int list \<Rightarrow> bool" where
  "clearOfPawns b c r files =
     list_all (\<lambda>a. list_all (\<lambda>x. \<not> pawnBearsOn a b \<lparr>pfile = x, rank = r\<rparr>) files)
       (getPiecesByColor b (opposite c))"

text \<open>
  An unmoved king on the d-file with a knight beside it; a king on its home square whose
  queenside path is attacked by a rook on d8, with a black pawn on a3 that bears on no
  square of the first rank; the same king in check from a pawn on d2; and the same king
  with a black pawn on e2 in front of it, which attacks d1 and f1.
\<close>

definition offFileKing :: Piece where
  "offFileKing = newPiece King White \<lparr>pfile = 3, rank = 0\<rparr>"

definition offFileBoard :: Board where
  "offFileBoard = newBoard
     [offFileKing,
      newPiece Knight White \<lparr>pfile = 4, rank = 0\<rparr>,
      newPiece Rook White \<lparr>pfile = 7, rank = 0\<rparr>,
      newPiece King Black \<lparr>pfile = 4, rank = 7\<rparr>]"

definition homeKing :: Piece where
  "homeKing = newPiece King White \<lparr>pfile = 4, rank = 0\<rparr>"

definition homeBoard :: Board where
  "homeBoard = newBoard
     [homeKing,
      newPiece Rook White \<lparr>pfile = 0, rank = 0\<rparr>,
      newPiece Rook White \<lparr>pfile = 7, rank = 0\<rparr>,
      newPiece King Black \<lparr>pfile = 4, rank = 7\<rparr>,
      \<lparr>type = Rook, color = Black, position = \<lparr>pfile = 3, rank = 7\<rparr>, hasMoved = True\<rparr>,
      \<lparr>type = Pawn, color = Black, position = \<lparr>pfile = 0, rank = 2\<rparr>, hasMoved = True\<rparr>]"

definition pawnCheckBoard :: Board where
  "pawnCheckBoard = newBoard
     [homeKing,
      newPiece Rook White \<lparr>pfile = 7, rank = 0\<rparr>,
      \<lparr>type = King, color = Black, position = \<lparr>pfile = 4, rank = 7\<rparr>, hasMoved = True\<rparr>,
      \<lparr>type = Pawn, color = Black, position = \<lparr>pfile = 3, rank = 1\<rparr>, hasMoved = True\<rparr>]"

definition pawnGuardBoard :: Board where
  "pawnGuardBoard = newBoard
     [homeKing,
      newPiece Rook White \<lparr>pfile = 0, rank = 0\<rparr>,
      newPiece Rook White \<lparr>pfile = 7, rank = 0\<rparr>,
      \<lparr>type = King, color = Black, position = \<lparr>pfile = 4, rank = 7\<rparr>, hasMoved = True\<rparr>,
      \<lparr>type = Pawn, color = Black, position = \<lparr>pfile = 4, rank = 1\<rparr>, hasMoved = True\<rparr>]"

subsection \<open>Outcomes of makeMove\<close>

text \<open>The four error descriptions with which \<open>makeMove\<close> reports a rule violation.\<close>

definition ruleViolations :: "string list" where
  "ruleViolations =
     [''No piece at source position'', ''Not your turn'', ''Illegal move'',
      ''Promotion type required'']"

text \<open>
  The rule violations of a request, as the specification lists them, in its order: the
  source square is empty; the piece is not of the colour to move; no legal move of the
  piece, computed with the current en-passant target, has the requested destination; the
  piece is a pawn, the destination is the back rank for its colour, and no promotion
  type is given.  The descriptions are those of the code.
\<close>

definition specPromotionStep :: "Piece \<Rightarrow> Position \<Rightarrow> bool" where
  "specPromotionStep p dst = (type p = Pawn \<and> rank dst = (if color p = White then 7 else 0))"

definition specRuleViolation ::
  "Position GameState \<Rightarrow> Position \<Rightarrow> Position \<Rightarrow> PieceType option \<Rightarrow> string option" where
  "specRuleViolation s src dst promo =
     (case getPiece (board s) src of
        None \<Rightarrow> Some ''No piece at source position''
      | Some p \<Rightarrow>
          if color p \<noteq> currentTurn s then Some ''Not your turn''
          else if \<not> list_ex (\<lambda>m. equals (mto m) dst) (getLegalMoves p (board s) (enPassantTarget s))
            then Some ''Illegal move''
          else if specPromotionStep p dst \<and> promo = None then Some ''Promotion type required''
          else None)"

text \<open>
  A request that promotes a pawn to a pawn or a king, which \<open>Piece.promote\<close> refuses.
\<close>

definition specBadPromotion ::
  "Position GameState \<Rightarrow> Position \<Rightarrow> Position \<Rightarrow> PieceType option \<Rightarrow> bool" where
  "specBadPromotion s src dst promo =
     (case getPiece (board s) src of
        None \<Rightarrow> False
      | Some p \<Rightarrow> specPromotionStep p dst \<and> (promo = Some Pawn \<or> promo = Some King))"

text \<open>
  End-condition detection as the specification words it, on a state \<open>ns\<close> reached by a
  move of \<open>mover\<close>: checkmate first (a win for the mover), then stalemate, insufficient
  material and the half-move clock.
\<close>

definition endConditionByPriority :: "Color \<Rightarrow> Position GameState \<Rightarrow> GameResult \<times> GameEndReason option" where
  "endConditionByPriority mover ns =
     (if isCheckmate (board ns) (currentTurn ns) (enPassantTarget ns)
        then (if mover = White then WhiteWin else BlackWin, Some Checkmate)
      else if isStalemate (board ns) (currentTurn ns) (enPassantTarget ns)
        then (Draw, Some Stalemate)
      else if hasInsufficientMaterial (board ns) then (Draw, Some InsufficientMaterial)
      else if halfMoveClock ns \<ge> 100 then (Draw, Some FiftyMoveRule)
      else (InProgress, None))"

text \<open>
  A position with a back-rank mate in one (rook a1 to a8), and a position with a white
  pawn on a7 that is free to promote.
\<close>

definition backRankBoard :: Board where
  "backRankBoard = newBoard
     [\<lparr>type = King, color = White, position = \<lparr>pfile = 6, rank = 0\<rparr>, hasMoved = True\<rparr>,
      \<lparr>type = Rook, color = White, position = \<lparr>pfile = 0, rank = 0\<rparr>, hasMoved = True\<rparr>,
      \<lparr>type = King, color = Black, position = \<lparr>pfile = 7, rank = 7\<rparr>, hasMoved = True\<rparr>,
      newPiece Pawn Black \<lparr>pfile = 6, rank = 6\<rparr>,
      newPiece Pawn Black \<lparr>pfile = 7, rank = 6\<rparr>]"

definition backRankGame :: "Position GameState" where
  "backRankGame = createCustom backRankBoard White"

definition promotionBoard :: Board where
  "promotionBoard = newBoard
     [\<lparr>type = King, color = White, position = \<lparr>pfile = 4, rank = 0\<rparr>, hasMoved = True\<rparr>,
      \<lparr>type = Pawn, color = White, position = \<lparr>pfile = 0, rank = 6\<rparr>, hasMoved = True\<rparr>,
      \<lparr>type = King, color = Black, position = \<lparr>pfile = 7, rank = 4\<rparr>, hasMoved = True\<rparr>]"

definition promotionGame :: "Position GameState" where
  "promotionGame = createCustom promotionBoard White"

subsection \<open>Positions for the rules engine\<close>

text \<open>
  White king e1 and rook h1, both unmoved, with a black pawn on h2; and the kingside
  castling move of that king.
\<close>

definition castleBoard :: Board where
  "castleBoard = newBoard
     [newPiece King White \<lparr>pfile = 4, rank = 0\<rparr>,
      newPiece Rook White \<lparr>pfile = 7, rank = 0\<rparr>,
      \<lparr>type = Pawn, color = Black, position = \<lparr>pfile = 7, rank = 1\<rparr>, hasMoved = True\<rparr>,
      \<lparr>type = King, color = Black, position = \<lparr>pfile = 4, rank = 7\<rparr>, hasMoved = True\<rparr>]"

definition castleMove :: Move where
  "castleMove =
     newMove \<lparr>pfile = 4, rank = 0\<rparr> \<lparr>pfile = 6, rank = 0\<rparr>
       (newPiece King White \<lparr>pfile = 4, rank = 0\<rparr>) None CastleKingside"

text \<open>Two white pawns side by side on d5 and e5.\<close>

definition ownPawn :: Piece where
  "ownPawn = \<lparr>type = Pawn, color = White, position = \<lparr>pfile = 4, rank = 4\<rparr>, hasMoved = True\<rparr>"

definition neighbourPawn :: Piece where
  "neighbourPawn = \<lparr>type = Pawn, color = White, position = \<lparr>pfile = 3, rank = 4\<rparr>, hasMoved = True\<rparr>"

definition ownPawnBoard :: Board where
  "ownPawnBoard = newBoard
     [\<lparr>type = King, color = Black, position = \<lparr>pfile = 4, rank = 7\<rparr>, hasMoved = True\<rparr>,
      neighbourPawn,
      ownPawn,
      \<lparr>type = King, color = White, position = \<lparr>pfile = 4, rank = 0\<rparr>, hasMoved = True\<rparr>]"

subsection \<open>Errors of the FEN parsers\<close>

text \<open>The four errors with which the FEN parsers reject a string.\<close>

definition isInvalidFEN :: "string \<Rightarrow> bool" where
  "isInvalidFEN e =
     (e = ''Invalid FEN: must have 6 parts''
      \<or> e = ''Invalid FEN: must have 8 ranks''
      \<or> (\<exists>ch. e = ''Invalid FEN: unknown piece '' @ [ch])
      \<or> (\<exists>r. e = ''Invalid FEN: rank '' @ intToString r @ '' has wrong number of squares''))"

section \<open>Verified properties\<close>

subsection \<open>Algebraic notation\<close>

lemma parseInt_single: "parseInt [c] = (if isDigit c then Num (codeUnit c - 48) else NaN)"
  by (auto simp: parseInt_def isDigit_def isWhiteSpace_def codeUnit_def digitsValue_def Let_def)

lemma natToString_digit: "n < 10 \<Longrightarrow> natToString n = [digitChar n]"
  by (simp add: natToString.simps)

lemma codeUnit_char_of: "0 \<le> n \<Longrightarrow> n < 256 \<Longrightarrow> codeUnit (char_of (n::int)) = n"
  by (simp add: codeUnit_def)

lemma codeUnit_digitChar: "n < 10 \<Longrightarrow> codeUnit (digitChar n) = 48 + int n"
  by (simp add: codeUnit_def digitChar_def)

lemma toAlgebraic_valid:
  assumes "isValid p"
  shows "toAlgebraic p = [char_of (97 + pfile p), digitChar (nat (rank p + 1))]"
proof -
  from assms have "nat (rank p + 1) < 10" and "\<not> rank p + 1 < 0"
    by (auto simp: isValid_def)
  then show ?thesis
    by (simp add: toAlgebraic_def intToString_def natToString_digit codeUnit_def Let_def)
qed

lemma fromAlgebraic_toAlgebraic: 
  assumes "isValid p"
  shows "fromAlgebraic (toAlgebraic p) = Inr \<lparr>parsedFile = pfile p, parsedRank = Num (rank p)\<rparr>"
proof -
  from assms have f: "0 \<le> pfile p" "pfile p \<le> 7" and r: "0 \<le> rank p" "rank p \<le> 7"
    by (simp_all add: isValid_def)
  have cf: "codeUnit (char_of (97 + pfile p)) = 97 + pfile p"
    using f by (intro codeUnit_char_of) auto
  have cr: "codeUnit (digitChar (nat (rank p + 1))) = 49 + rank p"
    using r by (subst codeUnit_digitChar) auto
  have dg: "isDigit (digitChar (nat (rank p + 1)))"
    using r cr by (simp add: isDigit_def codeUnit_def)
  show ?thesis
    using f r
    by (simp add: toAlgebraic_valid[OF assms] fromAlgebraic_def parseInt_single dg cf cr
        numMinus_def numLess_def numGreater_def Let_def codeUnit_def[of "CHR ''a''"])
qed

text \<open>
  When \<open>fromAlgebraic\<close> returns: on the two-character strings whose first character is
  a letter from a to h and whose second is a digit from 1 to 8, or no digit at all.
\<close>

lemma fromAlgebraic_returns_iff:
  "(\<exists>q. fromAlgebraic s = Inr q) \<longleftrightarrow>
     (\<exists>f r. s = [f, r] \<and> 97 \<le> codeUnit f \<and> codeUnit f \<le> 104 \<and>
        (isDigit r \<longrightarrow> 49 \<le> codeUnit r \<and> codeUnit r \<le> 56))"
proof (cases s)
  case Nil then show ?thesis by (simp add: fromAlgebraic_def)
next
  case (Cons f t)
  show ?thesis
  proof (cases t)
    case Nil with Cons show ?thesis by (simp add: fromAlgebraic_def)
  next
    case (Cons r u)
    show ?thesis
    proof (cases u)
      case Nil
      with \<open>s = f # t\<close> \<open>t = r # u\<close> show ?thesis
        by (auto simp: fromAlgebraic_def parseInt_single numMinus_def numLess_def numGreater_def Let_def
            codeUnit_def[of "CHR ''a''"])
    next
      case (Cons a v)
      with \<open>s = f # t\<close> \<open>t = r # u\<close> show ?thesis by (simp add: fromAlgebraic_def)
    qed
  qed
qed

text \<open>
  C7.  The round trip \<open>fromAlgebraic (toAlgebraic p) = p\<close> holds on every valid square
  (\<open>fromAlgebraic_toAlgebraic\<close> above).  The second half, that \<open>fromAlgebraic\<close> throws
  on every string that does not match \<open>[a-h][1-8]\<close>, fails: on \<open>ax\<close> the rank is
  \<open>NaN\<close>, both range tests on it are false, and the function returns a position whose
  rank is \<open>NaN\<close>.
\<close>

theorem fromAlgebraic_nondigit_rank_returns:
  "\<not> matchesSquare ''ax''
   \<and> fromAlgebraic ''ax'' = Inr \<lparr>parsedFile = 0, parsedRank = NaN\<rparr>"
  by code_simp

subsection \<open>The board keeps one piece per square\<close>

lemma mapSet_keys: "fst ` set (mapSet es k v) = insert k (fst ` set es)"
proof (induction es)
  case Nil then show ?case by simp
next
  case (Cons e es)
  obtain k' v' where e: "e = (k', v')" by (cases e)
  show ?case
  proof (cases "k' = k")
    case True with e show ?thesis by simp
  next
    case False with e Cons show ?thesis by (simp add: insert_commute)
  qed
qed

lemma mapSet_distinct: "distinct (map fst es) \<Longrightarrow> distinct (map fst (mapSet es k v))"
proof (induction es)
  case Nil then show ?case by simp
next
  case (Cons e es)
  obtain k' v' where e: "e = (k', v')" by (cases e)
  show ?case
  proof (cases "k' = k")
    case True with Cons e show ?thesis by simp
  next
    case False
    with Cons e have "k' \<notin> fst ` set (mapSet es k v)" by (simp add: mapSet_keys)
    with Cons e False show ?thesis by simp
  qed
qed

lemma mapSet_entries: "set (mapSet es k v) \<subseteq> insert (k, v) (set es)"
  by (induction es) (auto split: if_splits)

lemma mapDelete_entries: "set (mapDelete es k) \<subseteq> set es"
  by (induction es) (auto split: if_splits)

lemma mapDelete_distinct: "distinct (map fst es) \<Longrightarrow> distinct (map fst (mapDelete es k))"
proof (induction es)
  case Nil then show ?case by simp
next
  case (Cons e es)
  obtain k' v' where e: "e = (k', v')" by (cases e)
  have "k' \<notin> fst ` set es \<Longrightarrow> k' \<notin> fst ` set (mapDelete es k)"
    using mapDelete_entries[of es k] by auto
  with Cons e show ?case by auto
qed

lemma setPiece_keyed: "keyedByPosition b \<Longrightarrow> keyedByPosition (setPiece b p)"
  unfolding keyedByPosition_def setPiece_def list_all_iff
  using mapSet_entries[of b "getPositionKey (position p)" p] mapSet_distinct by fastforce

lemma removePiece_keyed: "keyedByPosition b \<Longrightarrow> keyedByPosition (removePiece b pos)"
  unfolding keyedByPosition_def removePiece_def list_all_iff
  using mapDelete_entries[of b "getPositionKey pos"] mapDelete_distinct by fastforce

lemma foldl_setPiece_keyed: "keyedByPosition b \<Longrightarrow> keyedByPosition (foldl setPiece b ps)"
  by (induction ps arbitrary: b) (simp_all add: setPiece_keyed)

lemma newBoard_keyed: "keyedByPosition (newBoard ps)"
  unfolding newBoard_def by (rule foldl_setPiece_keyed) (simp add: keyedByPosition_def)

lemma cloneBoard_keyed: "keyedByPosition (cloneBoard b)"
  by (simp add: cloneBoard_def newBoard_keyed)

lemma movePiece_keyed: "keyedByPosition b \<Longrightarrow> movePiece b src dst = Inr b' \<Longrightarrow> keyedByPosition b'"
  by (auto simp: movePiece_def setPiece_keyed removePiece_keyed split: option.splits)

lemma boardFromFEN_keyed: "boardFromFEN fen cr = Inr b \<Longrightarrow> keyedByPosition b"
  by (auto simp: boardFromFEN_def Let_def newBoard_keyed split: if_splits sum.splits)

lemma applyBoardOp_keyed: "keyedByPosition b \<Longrightarrow> keyedByPosition (applyBoardOp b op)"
  by (cases op) (auto simp: setPiece_keyed removePiece_keyed cloneBoard_keyed movePiece_keyed split: sum.splits)

lemma foldl_applyBoardOp_keyed: "keyedByPosition b \<Longrightarrow> keyedByPosition (foldl applyBoardOp b ops)"
  by (induction ops arbitrary: b) (simp_all add: applyBoardOp_keyed)

lemma position_eqI: "getPositionKey (p :: Position) = getPositionKey q \<Longrightarrow> p = q"
  by (cases p, cases q) (simp add: getPositionKey_def)

lemma keyed_getPiece: 
  assumes "keyedByPosition b" "getPiece b pos = Some q"
  shows "position q = pos"
proof -
  from assms(2) have "(getPositionKey pos, q) \<in> set b"
    by (simp add: getPiece_def map_of_SomeD)
  with assms(1) have "getPositionKey pos = getPositionKey (position q)"
    by (auto simp: keyedByPosition_def list_all_iff)
  then show ?thesis by (simp add: position_eqI)
qed

lemma keyed_distinct_positions:
  assumes "keyedByPosition b"
  shows "distinct (map position (getAllPieces b))"
proof -
  from assms have "map fst b = map (\<lambda>e. getPositionKey (position (snd e))) b"
    by (auto simp: keyedByPosition_def list_all_iff)
  then have "map fst b = map getPositionKey (map position (getAllPieces b))"
    by (simp add: getAllPieces_def comp_def)
  with assms have "distinct (map getPositionKey (map position (getAllPieces b)))"
    by (simp add: keyedByPosition_def)
  then show ?thesis
    using distinct_map[of getPositionKey "map position (getAllPieces b)"] by blast
qed

text \<open>
  C10.  A board built from a piece list, from FEN or by a factory, and then changed by
  any sequence of \<open>setPiece\<close>, \<open>removePiece\<close>, \<open>movePiece\<close> and \<open>clone\<close>, holds at most
  one piece per position, and a piece that \<open>getPiece\<close> returns for a position has that
  position stored.
\<close>

theorem board_one_piece_per_square:
  assumes "b0 = newBoard ps \<or> boardFromFEN fen cr = Inr b0 \<or> b0 = createStandard \<or> b0 = createEmpty"
  shows "distinct (map position (getAllPieces (foldl applyBoardOp b0 ops)))
         \<and> (\<forall>pos q. getPiece (foldl applyBoardOp b0 ops) pos = Some q \<longrightarrow> position q = pos)"
proof -
  from assms have "keyedByPosition b0"
    by (auto simp: newBoard_keyed boardFromFEN_keyed createStandard_def createEmpty_def)
  then have "keyedByPosition (foldl applyBoardOp b0 ops)"
    by (rule foldl_applyBoardOp_keyed)
  then show ?thesis
    using keyed_getPiece keyed_distinct_positions by blast
qed

text \<open>
  The theorem at a piece list with a repeated square and five operations, one of them a
  \<open>movePiece\<close> that throws.
\<close>

theorem board_one_piece_per_square_witness:
  "distinct (map position (getAllPieces (foldl applyBoardOp (newBoard examplePieces) exampleOps)))
   \<and> getPiece (foldl applyBoardOp (newBoard examplePieces) exampleOps) \<lparr>pfile = 0, rank = 0\<rparr>
       = Some \<lparr>type = Queen, color = Black, position = \<lparr>pfile = 0, rank = 0\<rparr>, hasMoved = True\<rparr>
   \<and> position \<lparr>type = Queen, color = Black, position = \<lparr>pfile = 0, rank = 0\<rparr>, hasMoved = True\<rparr>
       = \<lparr>pfile = 0, rank = 0\<rparr>"
proof -
  have g: "getPiece (foldl applyBoardOp (newBoard examplePieces) exampleOps) \<lparr>pfile = 0, rank = 0\<rparr>
       = Some \<lparr>type = Queen, color = Black, position = \<lparr>pfile = 0, rank = 0\<rparr>, hasMoved = True\<rparr>"
    by code_simp
  from board_one_piece_per_square[of "newBoard examplePieces" examplePieces undefined undefined exampleOps] g
  show ?thesis by simp
qed

subsection \<open>Castling\<close>

text \<open>
  Where the attack test of the engine and attack in the sense of chess agree.  The engine
  asks whether the square is among the pseudo-legal moves of an opposing piece.  For a
  pawn these are its advances and its captures of an opposing piece, so the two tests
  can differ only on a square that a pawn bears on.
\<close>

lemma equals_iff: "equals mv sq \<longleftrightarrow> mv = (sq :: Position)"
  by (cases mv, cases sq) (auto simp: equals_def)

lemma pawnMoves_bear:
  assumes "sq \<in> set (pawnMoves a b)"
  shows "pawnAdvancesOnto a sq \<or> (pawnAttacks a sq \<and> isOpponentPiece b sq (color a))"
proof -
  let ?d = "if color a = White then 1 else - 1 :: int"
  let ?f = "pfile (position a)"
  let ?r = "rank (position a)"
  from assms have
    "sq \<in> set (if isValid \<lparr>pfile = ?f, rank = ?r + ?d\<rparr> \<and> isEmpty b \<lparr>pfile = ?f, rank = ?r + ?d\<rparr>
                then \<lparr>pfile = ?f, rank = ?r + ?d\<rparr>
                       # (if ?r = (if color a = White then 1 else 6)
                              \<and> isEmpty b \<lparr>pfile = ?f, rank = ?r + 2 * ?d\<rparr>
                          then [\<lparr>pfile = ?f, rank = ?r + 2 * ?d\<rparr>] else [])
                else [])
     \<or> sq \<in> set (filter (\<lambda>capturePos. isValid capturePos \<and> isOpponentPiece b capturePos (color a))
                      (map (\<lambda>captureFile. \<lparr>pfile = captureFile, rank = ?r + ?d\<rparr>) [?f - 1, ?f + 1]))"
    by (simp only: pawnMoves_def Let_def set_append Un_iff)
  then show ?thesis
  proof
    assume "sq \<in> set (if isValid \<lparr>pfile = ?f, rank = ?r + ?d\<rparr> \<and> isEmpty b \<lparr>pfile = ?f, rank = ?r + ?d\<rparr>
                then \<lparr>pfile = ?f, rank = ?r + ?d\<rparr>
                       # (if ?r = (if color a = White then 1 else 6)
                              \<and> isEmpty b \<lparr>pfile = ?f, rank = ?r + 2 * ?d\<rparr>
                          then [\<lparr>pfile = ?f, rank = ?r + 2 * ?d\<rparr>] else [])
                else [])"
    then have "sq = \<lparr>pfile = ?f, rank = ?r + ?d\<rparr>
               \<or> (?r = (if color a = White then 1 else 6) \<and> sq = \<lparr>pfile = ?f, rank = ?r + 2 * ?d\<rparr>)"
      by (auto split: if_splits)
    then have "pawnAdvancesOnto a sq"
      by (auto simp: pawnAdvancesOnto_def pawnDirection_def)
    then show ?thesis ..
  next
    assume "sq \<in> set (filter (\<lambda>capturePos. isValid capturePos \<and> isOpponentPiece b capturePos (color a))
                      (map (\<lambda>captureFile. \<lparr>pfile = captureFile, rank = ?r + ?d\<rparr>) [?f - 1, ?f + 1]))"
    then have "isValid sq" "isOpponentPiece b sq (color a)"
      and "sq = \<lparr>pfile = ?f - 1, rank = ?r + ?d\<rparr> \<or> sq = \<lparr>pfile = ?f + 1, rank = ?r + ?d\<rparr>"
      by (auto simp del: filter.simps)
    then have "pawnAttacks a sq \<and> isOpponentPiece b sq (color a)"
      by (auto simp: pawnAttacks_def pawnDirection_def)
    then show ?thesis ..
  qed
qed

lemma pawnMoves_capture:
  assumes "pawnAttacks a sq" and "isOpponentPiece b sq (color a)"
  shows "sq \<in> set (pawnMoves a b)"
proof -
  let ?d = "if color a = White then 1 else - 1 :: int"
  let ?f = "pfile (position a)"
  let ?r = "rank (position a)"
  from assms(1) have v: "isValid sq"
    and "sq = \<lparr>pfile = ?f - 1, rank = ?r + ?d\<rparr> \<or> sq = \<lparr>pfile = ?f + 1, rank = ?r + ?d\<rparr>"
    by (cases sq; auto simp: pawnAttacks_def pawnDirection_def)+
  with assms(2) have
    "sq \<in> set (filter (\<lambda>capturePos. isValid capturePos \<and> isOpponentPiece b capturePos (color a))
                   (map (\<lambda>captureFile. \<lparr>pfile = captureFile, rank = ?r + ?d\<rparr>) [?f - 1, ?f + 1]))"
    by (auto simp del: filter.simps)
  then show ?thesis
    by (simp only: pawnMoves_def Let_def set_append Un_iff) blast
qed

lemma attacks_agree:
  assumes "\<not> pawnBearsOn a b sq"
  shows "list_ex (\<lambda>mv. equals mv sq) (getPossibleMoves a b) = attacks a b sq"
proof (cases "type a = Pawn")
  case False
  then show ?thesis by (simp add: attacks_def)
next
  case True
  with assms have nb: "\<not> (pawnAttacks a sq \<and> \<not> isOpponentPiece b sq (color a))" "\<not> pawnAdvancesOnto a sq"
    by (auto simp: pawnBearsOn_def)
  have "sq \<in> set (pawnMoves a b) \<longleftrightarrow> pawnAttacks a sq"
    using pawnMoves_bear[of sq a b] pawnMoves_capture[of a sq b] nb by blast
  with True show ?thesis
    by (simp add: attacks_def getPossibleMoves_def list_ex_iff equals_iff)
qed

lemma isSquareAttacked_agree:
  assumes "list_all (\<lambda>a. \<not> pawnBearsOn a b sq) (getPiecesByColor b (opposite c))"
  shows "isSquareAttacked b sq c = attackedByOpponent b sq c"
proof -
  from assms have "\<And>a. a \<in> set (getPiecesByColor b (opposite c)) \<Longrightarrow>
      list_ex (\<lambda>mv. equals mv sq) (getPossibleMoves a b) = attacks a b sq"
    by (simp add: list_all_iff attacks_agree)
  then show ?thesis
    by (simp add: isSquareAttacked_def attackedByOpponent_def Let_def list_ex_iff)
qed

lemma clearOfPawns_square:
  assumes "clearOfPawns b c r files" and "x \<in> set files"
  shows "isSquareAttacked b \<lparr>pfile = x, rank = r\<rparr> c = attackedByOpponent b \<lparr>pfile = x, rank = r\<rparr> c"
proof (rule isSquareAttacked_agree)
  from assms show "list_all (\<lambda>a. \<not> pawnBearsOn a b \<lparr>pfile = x, rank = r\<rparr>) (getPiecesByColor b (opposite c))"
    by (auto simp: clearOfPawns_def list_all_iff)
qed

lemma upto_castling:
  "[(4::int) + 1..6] = [5, 6]" "[min (4::int) 6..max 4 6] = [4, 5, 6]"
  "[1..(4::int) - 1] = [1, 2, 3]" "[min (4::int) 2..max 4 2] = [2, 3, 4]"
  by (simp_all add: upto_rec1)

lemma specCastleKingside_e_file:
  assumes "pfile (position king) = 4"
  shows "specCastleKingside king b =
     (\<not> hasMoved king
      \<and> (case getPiece b \<lparr>pfile = 7, rank = rank (position king)\<rparr> of
            None \<Rightarrow> False
          | Some rook \<Rightarrow> type rook = Rook \<and> \<not> hasMoved rook)
      \<and> isEmpty b \<lparr>pfile = 5, rank = rank (position king)\<rparr>
      \<and> isEmpty b \<lparr>pfile = 6, rank = rank (position king)\<rparr>
      \<and> \<not> attackedByOpponent b \<lparr>pfile = 4, rank = rank (position king)\<rparr> (color king)
      \<and> \<not> attackedByOpponent b \<lparr>pfile = 5, rank = rank (position king)\<rparr> (color king)
      \<and> \<not> attackedByOpponent b \<lparr>pfile = 6, rank = rank (position king)\<rparr> (color king))"
  unfolding specCastleKingside_def Let_def assms upto_castling by simp

lemma specCastleQueenside_e_file:
  assumes "pfile (position king) = 4"
  shows "specCastleQueenside king b =
     (\<not> hasMoved king
      \<and> (case getPiece b \<lparr>pfile = 0, rank = rank (position king)\<rparr> of
            None \<Rightarrow> False
          | Some rook \<Rightarrow> type rook = Rook \<and> \<not> hasMoved rook)
      \<and> isEmpty b \<lparr>pfile = 1, rank = rank (position king)\<rparr>
      \<and> isEmpty b \<lparr>pfile = 2, rank = rank (position king)\<rparr>
      \<and> isEmpty b \<lparr>pfile = 3, rank = rank (position king)\<rparr>
      \<and> \<not> attackedByOpponent b \<lparr>pfile = 4, rank = rank (position king)\<rparr> (color king)
      \<and> \<not> attackedByOpponent b \<lparr>pfile = 3, rank = rank (position king)\<rparr> (color king)
      \<and> \<not> attackedByOpponent b \<lparr>pfile = 2, rank = rank (position king)\<rparr> (color king))"
  unfolding specCastleQueenside_def Let_def assms upto_castling by auto

lemma getCastlingMoves_sides:
  assumes "type king = King"
  shows "getCastlingMoves king b =
     (if \<not> hasMoved king
         \<and> (case getPiece b \<lparr>pfile = 7, rank = rank (position king)\<rparr> of
               None \<Rightarrow> False
             | Some rook \<Rightarrow> type rook = Rook \<and> \<not> hasMoved rook)
         \<and> isEmpty b \<lparr>pfile = 5, rank = rank (position king)\<rparr>
         \<and> isEmpty b \<lparr>pfile = 6, rank = rank (position king)\<rparr>
         \<and> \<not> isSquareAttacked b \<lparr>pfile = 4, rank = rank (position king)\<rparr> (color king)
         \<and> \<not> isSquareAttacked b \<lparr>pfile = 5, rank = rank (position king)\<rparr> (color king)
         \<and> \<not> isSquareAttacked b \<lparr>pfile = 6, rank = rank (position king)\<rparr> (color king)
      then [kingsideCastle king] else [])
     @ (if \<not> hasMoved king
         \<and> (case getPiece b \<lparr>pfile = 0, rank = rank (position king)\<rparr> of
               None \<Rightarrow> False
             | Some rook \<Rightarrow> type rook = Rook \<and> \<not> hasMoved rook)
         \<and> isEmpty b \<lparr>pfile = 1, rank = rank (position king)\<rparr>
         \<and> isEmpty b \<lparr>pfile = 2, rank = rank (position king)\<rparr>
         \<and> isEmpty b \<lparr>pfile = 3, rank = rank (position king)\<rparr>
         \<and> \<not> isSquareAttacked b \<lparr>pfile = 4, rank = rank (position king)\<rparr> (color king)
         \<and> \<not> isSquareAttacked b \<lparr>pfile = 3, rank = rank (position king)\<rparr> (color king)
         \<and> \<not> isSquareAttacked b \<lparr>pfile = 2, rank = rank (position king)\<rparr> (color king)
      then [queensideCastle king] else [])"
proof (cases "hasMoved king")
  case True
  then show ?thesis by (simp add: getCastlingMoves_def)
next
  case False
  have k: "(case getPiece b \<lparr>pfile = 7, rank = rank (position king)\<rparr> of
                 None \<Rightarrow> []
               | Some kingsideRook \<Rightarrow>
                   if type kingsideRook = Rook \<and> \<not> hasMoved kingsideRook
                      \<and> isEmpty b \<lparr>pfile = 5, rank = rank (position king)\<rparr>
                      \<and> isEmpty b \<lparr>pfile = 6, rank = rank (position king)\<rparr>
                      \<and> \<not> isSquareAttacked b \<lparr>pfile = 4, rank = rank (position king)\<rparr> (color king)
                      \<and> \<not> isSquareAttacked b \<lparr>pfile = 5, rank = rank (position king)\<rparr> (color king)
                      \<and> \<not> isSquareAttacked b \<lparr>pfile = 6, rank = rank (position king)\<rparr> (color king)
                   then [newMove (position king) \<lparr>pfile = 6, rank = rank (position king)\<rparr> king None CastleKingside]
                   else [])
           = (if \<not> hasMoved king
         \<and> (case getPiece b \<lparr>pfile = 7, rank = rank (position king)\<rparr> of
               None \<Rightarrow> False
             | Some rook \<Rightarrow> type rook = Rook \<and> \<not> hasMoved rook)
         \<and> isEmpty b \<lparr>pfile = 5, rank = rank (position king)\<rparr>
         \<and> isEmpty b \<lparr>pfile = 6, rank = rank (position king)\<rparr>
         \<and> \<not> isSquareAttacked b \<lparr>pfile = 4, rank = rank (position king)\<rparr> (color king)
         \<and> \<not> isSquareAttacked b \<lparr>pfile = 5, rank = rank (position king)\<rparr> (color king)
         \<and> \<not> isSquareAttacked b \<lparr>pfile = 6, rank = rank (position king)\<rparr> (color king)
      then [kingsideCastle king] else [])"
    unfolding kingsideCastle_def
    using False by (cases "getPiece b \<lparr>pfile = 7, rank = rank (position king)\<rparr>") simp_all
  have q: "(case getPiece b \<lparr>pfile = 0, rank = rank (position king)\<rparr> of
                 None \<Rightarrow> []
               | Some queensideRook \<Rightarrow>
                   if type queensideRook = Rook \<and> \<not> hasMoved queensideRook
                      \<and> isEmpty b \<lparr>pfile = 1, rank = rank (position king)\<rparr>
                      \<and> isEmpty b \<lparr>pfile = 2, rank = rank (position king)\<rparr>
                      \<and> isEmpty b \<lparr>pfile = 3, rank = rank (position king)\<rparr>
                      \<and> \<not> isSquareAttacked b \<lparr>pfile = 4, rank = rank (position king)\<rparr> (color king)
                      \<and> \<not> isSquareAttacked b \<lparr>pfile = 3, rank = rank (position king)\<rparr> (color king)
                      \<and> \<not> isSquareAttacked b \<lparr>pfile = 2, rank = rank (position king)\<rparr> (color king)
                   then [newMove (position king) \<lparr>pfile = 2, rank = rank (position king)\<rparr> king None CastleQueenside]
                   else [])
           = (if \<not> hasMoved king
         \<and> (case getPiece b \<lparr>pfile = 0, rank = rank (position king)\<rparr> of
               None \<Rightarrow> False
             | Some rook \<Rightarrow> type rook = Rook \<and> \<not> hasMoved rook)
         \<and> isEmpty b \<lparr>pfile = 1, rank = rank (position king)\<rparr>
         \<and> isEmpty b \<lparr>pfile = 2, rank = rank (position king)\<rparr>
         \<and> isEmpty b \<lparr>pfile = 3, rank = rank (position king)\<rparr>
         \<and> \<not> isSquareAttacked b \<lparr>pfile = 4, rank = rank (position king)\<rparr> (color king)
         \<and> \<not> isSquareAttacked b \<lparr>pfile = 3, rank = rank (position king)\<rparr> (color king)
         \<and> \<not> isSquareAttacked b \<lparr>pfile = 2, rank = rank (position king)\<rparr> (color king)
      then [queensideCastle king] else [])"
    unfolding queensideCastle_def
    using False by (cases "getPiece b \<lparr>pfile = 0, rank = rank (position king)\<rparr>") simp_all
  show ?thesis
    unfolding getCastlingMoves_def Let_def k q using assms(1) False by simp
qed

lemma castle_special:
  "specialMove (kingsideCastle king) = CastleKingside"
  "specialMove (queensideCastle king) = CastleQueenside"
  by (simp_all add: kingsideCastle_def queensideCastle_def newMove_def)

lemma getCastlingMoves_kingside:
  assumes "type king = King" and "pfile (position king) = 4"
    and "clearOfPawns b (color king) (rank (position king)) [4, 5, 6]"
  shows "filter (\<lambda>m. specialMove m = CastleKingside) (getCastlingMoves king b)
           = (if specCastleKingside king b then [kingsideCastle king] else [])"
proof -
  have a: "isSquareAttacked b \<lparr>pfile = 4, rank = rank (position king)\<rparr> (color king)
             = attackedByOpponent b \<lparr>pfile = 4, rank = rank (position king)\<rparr> (color king)"
    "isSquareAttacked b \<lparr>pfile = 5, rank = rank (position king)\<rparr> (color king)
             = attackedByOpponent b \<lparr>pfile = 5, rank = rank (position king)\<rparr> (color king)"
    "isSquareAttacked b \<lparr>pfile = 6, rank = rank (position king)\<rparr> (color king)
             = attackedByOpponent b \<lparr>pfile = 6, rank = rank (position king)\<rparr> (color king)"
    using assms(3) by (simp_all add: clearOfPawns_square)
  show ?thesis
    unfolding getCastlingMoves_sides[OF assms(1)] specCastleKingside_e_file[OF assms(2)] a
    by (simp add: castle_special)
qed

lemma getCastlingMoves_queenside:
  assumes "type king = King" and "pfile (position king) = 4"
    and "clearOfPawns b (color king) (rank (position king)) [2, 3, 4]"
  shows "filter (\<lambda>m. specialMove m = CastleQueenside) (getCastlingMoves king b)
           = (if specCastleQueenside king b then [queensideCastle king] else [])"
proof -
  have a: "isSquareAttacked b \<lparr>pfile = 4, rank = rank (position king)\<rparr> (color king)
             = attackedByOpponent b \<lparr>pfile = 4, rank = rank (position king)\<rparr> (color king)"
    "isSquareAttacked b \<lparr>pfile = 3, rank = rank (position king)\<rparr> (color king)
             = attackedByOpponent b \<lparr>pfile = 3, rank = rank (position king)\<rparr> (color king)"
    "isSquareAttacked b \<lparr>pfile = 2, rank = rank (position king)\<rparr> (color king)
             = attackedByOpponent b \<lparr>pfile = 2, rank = rank (position king)\<rparr> (color king)"
    using assms(3) by (simp_all add: clearOfPawns_square)
  show ?thesis
    unfolding getCastlingMoves_sides[OF assms(1)] specCastleQueenside_e_file[OF assms(2)] a
    by (simp add: castle_special)
qed

text \<open>
  C4 (as amended).  For a king on the e-file (file 4), and for a side towards which no
  pawn of the opponent bears on a square from the king's square to its destination,
  \<open>getCastlingMoves\<close> returns the castling move of that side, once, if and only if the
  king has not moved, the rook of that side stands in its corner of the king's rank, is
  a rook and has not moved, the squares strictly between king and rook are empty, and no
  square from the king's square to its destination is attacked by the opponent.
\<close>

theorem castling_from_the_e_file_clear_of_pawns:
  assumes "type king = King" and "pfile (position king) = 4"
  shows "(clearOfPawns b (color king) (rank (position king)) [4, 5, 6] \<longrightarrow>
            filter (\<lambda>m. specialMove m = CastleKingside) (getCastlingMoves king b)
              = (if specCastleKingside king b then [kingsideCastle king] else []))
         \<and> (clearOfPawns b (color king) (rank (position king)) [2, 3, 4] \<longrightarrow>
            filter (\<lambda>m. specialMove m = CastleQueenside) (getCastlingMoves king b)
              = (if specCastleQueenside king b then [queensideCastle king] else []))"
  using getCastlingMoves_kingside[OF assms] getCastlingMoves_queenside[OF assms] by blast

text \<open>
  C4 as stated, for every king and every board, fails twice.  The function tests the
  fixed files 5 and 6 and never reads the king's file, so an unmoved king on d1 castles
  across the knight on e1.  And with a black pawn on e2 the king on e1 is given both
  castling moves, although the pawn attacks d1 and f1.
\<close>

theorem castling_against_the_specification:
  "type offFileKing = King
   \<and> list_ex (\<lambda>m. specialMove m = CastleKingside) (getCastlingMoves offFileKing offFileBoard)
   \<and> \<not> specCastleKingside offFileKing offFileBoard
   \<and> type homeKing = King \<and> pfile (position homeKing) = 4
   \<and> getCastlingMoves homeKing pawnGuardBoard = [kingsideCastle homeKing, queensideCastle homeKing]
   \<and> \<not> specCastleKingside homeKing pawnGuardBoard
   \<and> \<not> specCastleQueenside homeKing pawnGuardBoard"
  by code_simp

text \<open>
  The amended statement at a king on e1 with both rooks at home, a black rook on d8 and
  a black pawn on a3: the kingside move is returned, the queenside move is not.  And at
  the king on e1 in check from a pawn on d2, which bears on no square from e1 to g1: the
  kingside move is not returned.
\<close>

theorem castling_from_the_e_file_clear_of_pawns_witness:
  "type homeKing = King \<and> pfile (position homeKing) = 4
   \<and> clearOfPawns homeBoard (color homeKing) (rank (position homeKing)) [4, 5, 6]
   \<and> clearOfPawns homeBoard (color homeKing) (rank (position homeKing)) [2, 3, 4]
   \<and> specCastleKingside homeKing homeBoard \<and> \<not> specCastleQueenside homeKing homeBoard
   \<and> filter (\<lambda>m. specialMove m = CastleKingside) (getCastlingMoves homeKing homeBoard)
       = [kingsideCastle homeKing]
   \<and> filter (\<lambda>m. specialMove m = CastleQueenside) (getCastlingMoves homeKing homeBoard) = []
   \<and> clearOfPawns pawnCheckBoard (color homeKing) (rank (position homeKing)) [4, 5, 6]
   \<and> \<not> specCastleKingside homeKing pawnCheckBoard
   \<and> filter (\<lambda>m. specialMove m = CastleKingside) (getCastlingMoves homeKing pawnCheckBoard) = []"
proof -
  have h: "type homeKing = King" "pfile (position homeKing) = 4"
    "clearOfPawns homeBoard (color homeKing) (rank (position homeKing)) [4, 5, 6]"
    "clearOfPawns homeBoard (color homeKing) (rank (position homeKing)) [2, 3, 4]"
    "specCastleKingside homeKing homeBoard" "\<not> specCastleQueenside homeKing homeBoard"
    "clearOfPawns pawnCheckBoard (color homeKing) (rank (position homeKing)) [4, 5, 6]"
    "\<not> specCastleKingside homeKing pawnCheckBoard"
    by code_simp+
  with castling_from_the_e_file_clear_of_pawns[of homeKing homeBoard]
    castling_from_the_e_file_clear_of_pawns[of homeKing pawnCheckBoard]
  show ?thesis by simp
qed

subsection \<open>En passant\<close>

text \<open>
  What a returned en-passant move guarantees: the target is one rank ahead of the pawn,
  the square behind the target holds a pawn (of either colour), and the move passed
  \<open>isMoveLegal\<close>.
\<close>

lemma enPassantLoop_Some:
  assumes "enPassantLoop pawn b target direction fs = Some m"
  shows "rank (position pawn) + direction = rank target
         \<and> (\<exists>cp. getPiece b \<lparr>pfile = pfile target, rank = rank (position pawn)\<rparr> = Some cp
                 \<and> type cp = Pawn
                 \<and> m = newMove (position pawn) target pawn (Some cp) EnPassant
                 \<and> isMoveLegal m b)"
  using assms
proof (induction fs)
  case Nil
  then show ?case by simp
next
  case (Cons f fs)
  show ?case
  proof (cases "enPassantLoop pawn b target direction fs = Some m")
    case True
    then show ?thesis by (rule Cons.IH)
  next
    case False
    with Cons.prems show ?thesis
      by (auto split: if_splits option.splits)
  qed
qed

lemma getEnPassantMove_Some:
  assumes "getEnPassantMove pawn b target = Some m"
  shows "type pawn = Pawn
         \<and> rank (position pawn) + (if color pawn = White then 1 else - 1) = rank target
         \<and> (\<exists>cp. getPiece b \<lparr>pfile = pfile target, rank = rank (position pawn)\<rparr> = Some cp
                 \<and> type cp = Pawn
                 \<and> m = newMove (position pawn) target pawn (Some cp) EnPassant
                 \<and> isMoveLegal m b)"
proof -
  from assms have pawn: "type pawn = Pawn"
    by (cases "type pawn = Pawn") (simp_all add: getEnPassantMove_def)
  with assms have "enPassantLoop pawn b target (if color pawn = White then 1 else - 1)
                     [pfile (position pawn) - 1, pfile (position pawn) + 1] = Some m"
    by (simp add: getEnPassantMove_def Let_def)
  from enPassantLoop_Some[OF this] pawn show ?thesis by simp
qed

text \<open>
  The target is one of the pawn's two diagonal squares, and conversely: where the target
  is diagonal-forward, the square behind it holds a pawn and the capture passes
  \<open>isMoveLegal\<close>, the move is returned.
\<close>

lemma enPassantLoop_file:
  "enPassantLoop pawn b target direction fs = Some m \<Longrightarrow> pfile target \<in> set fs"
  by (induction fs) (auto split: if_splits option.splits)

lemma getEnPassantMove_diagonal:
  assumes "getEnPassantMove pawn b target = Some m"
  shows "pfile target = pfile (position pawn) - 1 \<or> pfile target = pfile (position pawn) + 1"
proof -
  from assms have "type pawn = Pawn"
    by (cases "type pawn = Pawn") (simp_all add: getEnPassantMove_def)
  with assms have "enPassantLoop pawn b target (if color pawn = White then 1 else - 1)
                     [pfile (position pawn) - 1, pfile (position pawn) + 1] = Some m"
    by (simp add: getEnPassantMove_def Let_def)
  from enPassantLoop_file[OF this] show ?thesis by auto
qed

lemma enPassantLoop_complete:
  assumes "pfile target \<in> set fs"
    and "rank (position pawn) + direction = rank target"
    and "getPiece b \<lparr>pfile = pfile target, rank = rank (position pawn)\<rparr> = Some cp"
    and "type cp = Pawn"
    and "isMoveLegal (newMove (position pawn) target pawn (Some cp) EnPassant) b"
  shows "enPassantLoop pawn b target direction fs
         = Some (newMove (position pawn) target pawn (Some cp) EnPassant)"
  using assms(1)
proof (induction fs)
  case Nil
  then show ?case by simp
next
  case (Cons f fs)
  show ?case
  proof (cases "f = pfile target")
    case True
    with assms(2-5) show ?thesis by simp
  next
    case False
    with Cons.prems have "pfile target \<in> set fs" by simp
    from Cons.IH[OF this] False show ?thesis by simp
  qed
qed

lemma getEnPassantMove_complete:
  assumes "type pawn = Pawn"
    and "pfile target = pfile (position pawn) - 1 \<or> pfile target = pfile (position pawn) + 1"
    and "rank (position pawn) + (if color pawn = White then 1 else - 1) = rank target"
    and "getPiece b \<lparr>pfile = pfile target, rank = rank (position pawn)\<rparr> = Some cp"
    and "type cp = Pawn"
    and "isMoveLegal (newMove (position pawn) target pawn (Some cp) EnPassant) b"
  shows "getEnPassantMove pawn b target
         = Some (newMove (position pawn) target pawn (Some cp) EnPassant)"
proof -
  from assms(2) have "pfile target \<in> set [pfile (position pawn) - 1, pfile (position pawn) + 1]"
    by auto
  from enPassantLoop_complete[OF this assms(3,4,5,6)] assms(1) show ?thesis
    by (simp add: getEnPassantMove_def Let_def)
qed

text \<open>
  C8.  \<open>getEnPassantMove\<close> is to return a move only when the square behind the target
  holds a pawn of the opponent.  It tests the type of that piece and not its colour: with
  the target d6, the white pawn on e5 captures the white pawn on d5.
\<close>

theorem en_passant_captures_own_pawn:
  "getEnPassantMove ownPawn ownPawnBoard \<lparr>pfile = 3, rank = 5\<rparr>
     = Some (newMove \<lparr>pfile = 4, rank = 4\<rparr> \<lparr>pfile = 3, rank = 5\<rparr> ownPawn (Some neighbourPawn) EnPassant)
   \<and> color neighbourPawn = color ownPawn
   \<and> getPiece ownPawnBoard \<lparr>pfile = 3, rank = 4\<rparr> = Some neighbourPawn"
  by code_simp

subsection \<open>Legal moves and the mover's king\<close>

text \<open>
  Moves other than castling are safe.  A plain move is applied by the game state as
  \<open>isMoveLegal\<close> applied it; an en-passant move removes the captured pawn after placing
  the capturing one instead of before, which gives the same board because the two squares
  differ.  So every move of \<open>getAllLegalMoves\<close> that is not a castling move leaves the
  mover's king out of check.
\<close>

lemma mapDelete_mapSet_commute:
  "k \<noteq> k' \<Longrightarrow> mapDelete (mapSet es k v) k' = mapSet (mapDelete es k') k v"
  by (induction es) auto

lemma removePiece_setPiece_commute:
  assumes "getPositionKey (position p) \<noteq> getPositionKey pos"
  shows "removePiece (setPiece b p) pos = setPiece (removePiece b pos) p"
  using assms by (simp add: removePiece_def setPiece_def mapDelete_mapSet_commute)

lemma rulesApplyMove_plain:
  assumes "specialMove m = SpecialNone"
  shows "applyMoveToBoard b m = Inr (rulesApplyMove (cloneBoard b) m)"
  using assms by (simp add: applyMoveToBoard_def isCastling_def isEnPassant_def isPromotion_def)

lemma applyEnPassant_as_rules:
  assumes "capturedPiece m = Some cp"
    and "getPositionKey (position cp) \<noteq> getPositionKey (mto m)"
  shows "applyEnPassant nb m = rulesApplyMove nb m"
proof -
  have "getPositionKey (position (moveTo (piece m) (mto m))) \<noteq> getPositionKey (position cp)"
    using assms(2) by (simp add: moveTo_def)
  then show ?thesis
    using assms(1)
    by (simp add: applyEnPassant_def rulesApplyMove_def Let_def removePiece_setPiece_commute)
qed

lemma getLegalMoves_parts_legal:
  assumes "m \<in> set (getLegalMoves p b ep)"
  shows "(isMoveLegal m b
          \<and> m \<in> set (map (\<lambda>targetPos. newMove (position p) targetPos p (getPiece b targetPos) SpecialNone)
                          (getPossibleMoves p b)))
     \<or> m \<in> set (if type p = King then getCastlingMoves p b else [])
     \<or> m \<in> set (if type p = Pawn
                    then (case ep of
                            None \<Rightarrow> []
                          | Some target \<Rightarrow>
                              (case getEnPassantMove p b target of None \<Rightarrow> [] | Some m' \<Rightarrow> [m']))
                    else [])"
  using assms
  apply (simp only: getLegalMoves_def Let_def set_append set_filter Un_iff mem_Collect_eq)
  apply blast
  done

lemma getCastlingMoves_isCastling:
  "m \<in> set (getCastlingMoves king b) \<Longrightarrow> isCastling m"
  by (auto simp: getCastlingMoves_def newMove_def isCastling_def Let_def split: if_splits option.splits)

lemma legal_noncastling_moves_keep_king_safe:
  assumes keyed: "keyedByPosition b"
    and legal: "m \<in> set (getAllLegalMoves b c ep)"
    and plain: "\<not> isCastling m"
  shows "\<exists>nb. applyMoveToBoard b m = Inr nb \<and> \<not> isInCheck nb c"
proof -
  from legal obtain p where p: "p \<in> set (getPiecesByColor b c)" "m \<in> set (getLegalMoves p b ep)"
    by (auto simp: getAllLegalMoves_def)
  then have col: "color p = c"
    by (simp add: getPiecesByColor_def)
  from getLegalMoves_parts_legal[OF p(2)] show ?thesis
  proof (elim disjE conjE)
    assume ok: "isMoveLegal m b"
      and "m \<in> set (map (\<lambda>targetPos. newMove (position p) targetPos p (getPiece b targetPos) SpecialNone)
                         (getPossibleMoves p b))"
    then have sp: "specialMove m = SpecialNone" and pc: "piece m = p"
      by (auto simp: newMove_def)
    from ok pc col have "\<not> isInCheck (rulesApplyMove (cloneBoard b) m) c"
      by (simp add: isMoveLegal_def Let_def)
    with rulesApplyMove_plain[OF sp, of b] show ?thesis by simp
  next
    assume "m \<in> set (if type p = King then getCastlingMoves p b else [])"
    then have "m \<in> set (getCastlingMoves p b)"
      by (cases "type p = King") simp_all
    with plain show ?thesis by (simp add: getCastlingMoves_isCastling)
  next
    assume "m \<in> set (if type p = Pawn
                    then (case ep of
                            None \<Rightarrow> []
                          | Some target \<Rightarrow>
                              (case getEnPassantMove p b target of None \<Rightarrow> [] | Some m' \<Rightarrow> [m']))
                    else [])"
    then have at: "m \<in> set (case ep of
                          None \<Rightarrow> []
                        | Some target \<Rightarrow>
                            (case getEnPassantMove p b target of None \<Rightarrow> [] | Some m' \<Rightarrow> [m']))"
      by (cases "type p = Pawn"; simp cong: if_cong)
    from at obtain target where "ep = Some target"
      and "m \<in> set (case getEnPassantMove p b target of None \<Rightarrow> [] | Some m' \<Rightarrow> [m'])"
      by (cases ep) simp_all
    then have "getEnPassantMove p b target = Some m"
      by (cases "getEnPassantMove p b target") simp_all
    from getEnPassantMove_Some[OF this] obtain cp where
      step: "rank (position p) + (if color p = White then 1 else - 1) = rank target"
      and cp: "getPiece b \<lparr>pfile = pfile target, rank = rank (position p)\<rparr> = Some cp"
      and m: "m = newMove (position p) target p (Some cp) EnPassant"
      and ok: "isMoveLegal m b"
      by blast
    from keyed_getPiece[OF keyed cp] have at_cp: "position cp = \<lparr>pfile = pfile target, rank = rank (position p)\<rparr>" .
    from step have "rank (position p) \<noteq> rank target"
      by (cases "color p = White") simp_all
    with at_cp m have apart: "getPositionKey (position cp) \<noteq> getPositionKey (mto m)"
      by (simp add: getPositionKey_def newMove_def)
    from m have cap: "capturedPiece m = Some cp" and pc: "piece m = p" and sp: "specialMove m = EnPassant"
      by (simp_all add: newMove_def)
    from sp have "applyMoveToBoard b m = Inr (applyEnPassant (cloneBoard b) m)"
      by (simp add: applyMoveToBoard_def isCastling_def isEnPassant_def)
    then have "applyMoveToBoard b m = Inr (rulesApplyMove (cloneBoard b) m)"
      by (simp add: applyEnPassant_as_rules[OF cap apart])
    moreover from ok pc col have "\<not> isInCheck (rulesApplyMove (cloneBoard b) m) c"
      by (simp add: isMoveLegal_def Let_def)
    ultimately show ?thesis by simp
  qed
qed

text \<open>
  C1.  Every move of \<open>getAllLegalMoves\<close> is to leave the mover's king out of check.  The
  kingside castling of the king on e1 is returned although a black pawn on h2 attacks g1:
  \<open>isSquareAttacked\<close> reads the pawn's pseudo-legal moves, which hold a diagonal square
  only when an opposing piece stands on it, and g1 is empty before the move.  After the
  move the king stands on g1, in check.
\<close>

theorem castling_into_pawn_attack:
  "castleMove \<in> set (getAllLegalMoves castleBoard White None)
   \<and> (case applyMoveToBoard castleBoard castleMove of
         Inl e \<Rightarrow> False
       | Inr nb \<Rightarrow> isInCheck nb White)"
  by code_simp

subsection \<open>Insufficient material\<close>

lemma kings_by_colour:
  "length (filter (\<lambda>p. type p = King) ps)
   = length (filter (\<lambda>p. type p = King \<and> color p = White) ps)
     + length (filter (\<lambda>p. type p = King \<and> color p = Black) ps)"
proof (induction ps)
  case Nil then show ?case by simp
next
  case (Cons p ps)
  then show ?case by (cases "color p") simp_all
qed

lemma bishops_among_nonKings:
  "filter (\<lambda>p. type p = Bishop) ps = filter (\<lambda>p. type p = Bishop) (filter (\<lambda>p. type p \<noteq> King) ps)"
  by (induction ps) auto

lemma jsRem_nonneg: "0 \<le> a \<Longrightarrow> jsRem a 2 = a mod 2"
  by (simp add: jsRem_def sgn_if)

lemma pieces_count:
  assumes "oneKingEach b"
  shows "length (getAllPieces b) = 2 + length (filter (\<lambda>p. type p \<noteq> King) (getAllPieces b))"
proof -
  have "length (filter (\<lambda>p. type p = King) (getAllPieces b)) = 2"
    using assms kings_by_colour[of "getAllPieces b"] by (simp add: oneKingEach_def kingCount_def)
  then show ?thesis
    using sum_length_filter_compl[of "\<lambda>p. type p = King" "getAllPieces b"] by simp
qed

text \<open>
  C5 (as amended).  On a board of in-range squares that holds exactly one king of each
  colour, \<open>hasInsufficientMaterial\<close> is true exactly for the two kings alone, the two
  kings with one bishop or knight, and the two kings with two bishops whose squares have
  equal (file + rank) mod 2; it is false for all other material.
\<close>

theorem insufficient_material_with_both_kings:
  assumes kings: "oneKingEach b" and valid: "allOnBoard b"
  shows "hasInsufficientMaterial b = specInsufficientMaterial b"
proof -
  define nk where "nk = filter (\<lambda>p. type p \<noteq> King) (getAllPieces b)"
  have len: "length (getAllPieces b) = 2 + length nk"
    using pieces_count[OF kings] by (simp add: nk_def)
  have bs: "filter (\<lambda>p. type p = Bishop) (getAllPieces b) = filter (\<lambda>p. type p = Bishop) nk"
    unfolding nk_def by (rule bishops_among_nonKings)
  have on: "\<And>p. p \<in> set nk \<Longrightarrow> 0 \<le> pfile (position p) + rank (position p)"
    using valid by (auto simp: nk_def allOnBoard_def list_all_iff isValid_def)
  have code: "hasInsufficientMaterial b =
      (if length nk = 0 then True
       else if length nk = 1 then (type (nk ! 0) = Bishop \<or> type (nk ! 0) = Knight)
       else if length nk = 2 \<and> length (filter (\<lambda>p. type p = Bishop) nk) = 2
         then jsRem (pfile (position (filter (\<lambda>p. type p = Bishop) nk ! 0)) + rank (position (filter (\<lambda>p. type p = Bishop) nk ! 0))) 2
            = jsRem (pfile (position (filter (\<lambda>p. type p = Bishop) nk ! 1)) + rank (position (filter (\<lambda>p. type p = Bishop) nk ! 1))) 2
       else False)"
    unfolding hasInsufficientMaterial_def Let_def bs len
    by (simp add: nk_def[symmetric])
  have spec: "specInsufficientMaterial b =
      (case nk of [] \<Rightarrow> True
       | [m] \<Rightarrow> type m = Bishop \<or> type m = Knight
       | [x, y] \<Rightarrow> type x = Bishop \<and> type y = Bishop \<and> sameSquareColour x y
       | _ \<Rightarrow> False)"
    using kings by (simp add: specInsufficientMaterial_def nk_def)
  show ?thesis
  proof (cases nk)
    case Nil
    then show ?thesis by (simp add: code spec)
  next
    case (Cons x r1)
    note c1 = this
    show ?thesis
    proof (cases r1)
      case Nil
      with c1 show ?thesis by (simp add: code spec)
    next
      case (Cons y r2)
      note c2 = this
      show ?thesis
      proof (cases r2)
        case Nil
        have "0 \<le> pfile (position x) + rank (position x)" "0 \<le> pfile (position y) + rank (position y)"
          using on c1 c2 Nil by auto
        with c1 c2 Nil show ?thesis
          by (auto simp: code spec sameSquareColour_def jsRem_nonneg)
      next
        case (Cons z r3)
        with c1 c2 show ?thesis by (simp add: code spec)
      qed
    qed
  qed
qed

text \<open>
  C5 as stated, for every board, fails: the function counts pieces and never looks for
  the kings, so two rooks alone are reported as insufficient material.
\<close>

theorem insufficient_material_without_kings:
  "hasInsufficientMaterial twoRooksBoard \<and> \<not> specInsufficientMaterial twoRooksBoard"
  by code_simp

text \<open>The amended statement at two kings and two bishops on squares of one colour.\<close>

theorem insufficient_material_with_both_kings_witness:
  "oneKingEach twoBishopsBoard \<and> allOnBoard twoBishopsBoard
   \<and> hasInsufficientMaterial twoBishopsBoard \<and> specInsufficientMaterial twoBishopsBoard"
proof -
  have h: "oneKingEach twoBishopsBoard" "allOnBoard twoBishopsBoard" "specInsufficientMaterial twoBishopsBoard"
    by code_simp+
  with insufficient_material_with_both_kings[of twoBishopsBoard] show ?thesis by simp
qed

subsection \<open>makeMove: what it returns and what it throws\<close>

lemma enPassantLoop_promotionType:
  "enPassantLoop pawn b target direction fs = Some m \<Longrightarrow> promotionType m = None"
  by (induction fs) (auto simp: newMove_def split: if_splits option.splits)

lemma getCastlingMoves_promotionType:
  "m \<in> set (getCastlingMoves king b) \<Longrightarrow> promotionType m = None"
  by (auto simp: getCastlingMoves_def newMove_def Let_def split: if_splits option.splits)

lemma getLegalMoves_parts:
  assumes "m \<in> set (getLegalMoves p b ep)"
  shows "m \<in> set (map (\<lambda>targetPos. newMove (position p) targetPos p (getPiece b targetPos) SpecialNone)
                       (getPossibleMoves p b))
     \<or> m \<in> set (if type p = King then getCastlingMoves p b else [])
     \<or> m \<in> set (if type p = Pawn
                    then (case ep of
                            None \<Rightarrow> []
                          | Some target \<Rightarrow>
                              (case getEnPassantMove p b target of None \<Rightarrow> [] | Some m' \<Rightarrow> [m']))
                    else [])"
  using assms
  apply (simp only: getLegalMoves_def Let_def set_append set_filter Un_iff)
  apply blast
  done

lemma getLegalMoves_promotionType:
  assumes "m \<in> set (getLegalMoves p b ep)"
  shows "promotionType m = None"
  using getLegalMoves_parts[OF assms]
proof (elim disjE)
  assume "m \<in> set (map (\<lambda>targetPos. newMove (position p) targetPos p (getPiece b targetPos) SpecialNone)
                       (getPossibleMoves p b))"
  then show ?thesis by (auto simp: newMove_def)
next
  assume "m \<in> set (if type p = King then getCastlingMoves p b else [])"
  then have "m \<in> set (getCastlingMoves p b)"
    by (cases "type p = King") simp_all
  then show ?thesis by (rule getCastlingMoves_promotionType)
next
  assume "m \<in> set (if type p = Pawn
                  then (case ep of
                          None \<Rightarrow> []
                        | Some target \<Rightarrow>
                            (case getEnPassantMove p b target of None \<Rightarrow> [] | Some m' \<Rightarrow> [m']))
                  else [])"
  then have pawn: "type p = Pawn"
    and at: "m \<in> set (case ep of
                          None \<Rightarrow> []
                        | Some target \<Rightarrow>
                            (case getEnPassantMove p b target of None \<Rightarrow> [] | Some m' \<Rightarrow> [m']))"
    by (cases "type p = Pawn"; simp cong: if_cong)+
  from at obtain target where "ep = Some target"
    and "m \<in> set (case getEnPassantMove p b target of None \<Rightarrow> [] | Some m' \<Rightarrow> [m'])"
    by (cases ep) simp_all
  then have "getEnPassantMove p b target = Some m"
    by (cases "getEnPassantMove p b target") simp_all
  with pawn have "enPassantLoop p b target (if color p = White then 1 else - 1)
                    [pfile (position p) - 1, pfile (position p) + 1] = Some m"
    by (simp add: getEnPassantMove_def Let_def)
  then show ?thesis by (rule enPassantLoop_promotionType)
qed

lemma applyMoveToBoard_plain:
  "promotionType m = None \<Longrightarrow> \<exists>nb. applyMoveToBoard b m = Inr nb"
  by (simp add: applyMoveToBoard_def applyPromotion_def Let_def)

lemma applyMoveToBoard_promotion:
  assumes "type (piece m) = Pawn" "specialMove m = PawnPromotion" "promotionType m = Some pt"
  shows "(pt \<noteq> Pawn \<and> pt \<noteq> King \<longrightarrow> (\<exists>nb. applyMoveToBoard b m = Inr nb))
         \<and> (applyMoveToBoard b m = Inl e \<longrightarrow>
               e = ''Cannot promote to pawn or king'' \<and> (pt = Pawn \<or> pt = King))"
  using assms
  by (auto simp: applyMoveToBoard_def applyPromotion_def promote_def isCastling_def isEnPassant_def
      isPromotion_def Let_def split: if_splits sum.splits option.splits)

lemma applyMove_Inl: "applyMove s m = Inl e \<longleftrightarrow> applyMoveToBoard (board s) m = Inl e"
  by (auto simp: applyMove_def Let_def split: sum.splits)

lemma applyAndReport_Inl: "applyAndReport s m = Inl e \<longleftrightarrow> applyMoveToBoard (board s) m = Inl e"
proof -
  have "applyAndReport s m = Inl e \<longleftrightarrow> applyMove s m = Inl e"
    by (simp add: applyAndReport_def split: sum.splits)
  then show ?thesis by (simp add: applyMove_Inl)
qed

lemma applyAndReport_Inr:
  "applyAndReport s m = Inr r \<Longrightarrow>
     success r \<and> error r = None \<and> (\<exists>ns. applyMove s m = Inr ns \<and> newState r = Some ns)"
  by (auto simp: applyAndReport_def split: sum.splits)

lemma failure_is_rule_violation:
  "msg \<in> set ruleViolations \<Longrightarrow> \<not> success (failure msg) \<and> error (failure msg) = Some msg"
  by (simp add: failure_def)

text \<open>
  The outcomes of \<open>makeMove\<close>: a rule violation, the report on a legal move as the
  rules returned it, or the report on a promotion it has built.
\<close>

lemma makeMove_cases:
  obtains (violation) msg where "msg \<in> set ruleViolations" "makeMove s src dst promo = Inr (failure msg)"
  | (plain) m where "promotionType m = None" "makeMove s src dst promo = applyAndReport s m"
  | (promotion) m pt where "type (piece m) = Pawn" "specialMove m = PawnPromotion"
      "promotionType m = Some pt" "promo = Some pt" "makeMove s src dst promo = applyAndReport s m"
proof (cases "getPiece (board s) src")
  case None
  then have "makeMove s src dst promo = Inr (failure ''No piece at source position'')"
    by (simp add: makeMove_def)
  then show ?thesis by (intro violation[of "''No piece at source position''"]) (simp_all add: ruleViolations_def)
next
  case (Some p)
  show ?thesis
  proof (cases "color p \<noteq> currentTurn s")
    case True
    with Some have "makeMove s src dst promo = Inr (failure ''Not your turn'')"
      by (simp add: makeMove_def)
    then show ?thesis by (intro violation[of "''Not your turn''"]) (simp_all add: ruleViolations_def)
  next
    case turn: False
    show ?thesis
    proof (cases "find (\<lambda>m. equals (mto m) dst) (getLegalMovesForPiece s p)")
      case None
      with Some turn have "makeMove s src dst promo = Inr (failure ''Illegal move'')"
        by (simp add: makeMove_def)
      then show ?thesis by (intro violation[of "''Illegal move''"]) (simp_all add: ruleViolations_def)
    next
      case found: (Some m)
      then have "m \<in> set (getLegalMovesForPiece s p)"
        by (auto simp: find_Some_iff)
      then have pm: "promotionType m = None"
        by (auto simp: getLegalMovesForPiece_def getLegalMoves_promotionType split: if_splits)
      have mm: "makeMove s src dst promo =
          (if type p = Pawn \<and> ((color p = White \<and> rank dst = 7) \<or> (color p = Black \<and> rank dst = 0))
           then (case promo of
                   None \<Rightarrow> Inr (failure ''Promotion type required'')
                 | Some pt \<Rightarrow>
                     applyAndReport s
                       \<lparr>mfrom = src, mto = dst, piece = p, capturedPiece = capturedPiece m,
                        specialMove = PawnPromotion, promotionType = Some pt\<rparr>)
           else applyAndReport s m)"
        using Some turn found by (simp add: makeMove_def)
      show ?thesis
      proof (cases "type p = Pawn \<and> ((color p = White \<and> rank dst = 7) \<or> (color p = Black \<and> rank dst = 0))")
        case False
        have "makeMove s src dst promo = applyAndReport s m"
          unfolding mm by (rule if_not_P[OF False])
        with pm show ?thesis by (rule plain)
      next
        case br: True
        note mm' = mm[unfolded if_P[OF br]]
        show ?thesis
        proof (cases promo)
          case None
          with mm' have "makeMove s src dst promo = Inr (failure ''Promotion type required'')"
            by simp
          then show ?thesis by (intro violation[of "''Promotion type required''"]) (simp_all add: ruleViolations_def)
        next
          case (Some pt)
          with mm'
          have "makeMove s src dst promo = applyAndReport s
                  \<lparr>mfrom = src, mto = dst, piece = p, capturedPiece = capturedPiece m,
                   specialMove = PawnPromotion, promotionType = Some pt\<rparr>"
            by simp
          with br Some show ?thesis
            by (intro promotion[of "\<lparr>mfrom = src, mto = dst, piece = p, capturedPiece = capturedPiece m,
                   specialMove = PawnPromotion, promotionType = Some pt\<rparr>" pt]) simp_all
        qed
      qed
    qed
  qed
qed

lemma applyMoveToBoard_bad_promotion:
  assumes "type (piece m) = Pawn" "specialMove m = PawnPromotion" "promotionType m = Some pt"
    and "pt = Pawn \<or> pt = King"
  shows "applyMoveToBoard b m = Inl ''Cannot promote to pawn or king''"
  using assms
  by (auto simp: applyMoveToBoard_def applyPromotion_def promote_def isCastling_def isEnPassant_def
      isPromotion_def Let_def)

lemma applyAndReport_Inl_of_board:
  "applyMoveToBoard (board s) m = Inl e \<Longrightarrow> applyAndReport s m = Inl e"
  by (simp add: applyAndReport_Inl)

lemma applyAndReport_success:
  assumes "applyMoveToBoard (board s) m = Inr nb"
  shows "\<exists>r. applyAndReport s m = Inr r \<and> success r \<and> error r = None"
proof -
  from assms have "\<not> (\<exists>e. applyAndReport s m = Inl e)" by (simp add: applyAndReport_Inl)
  then obtain r where r: "applyAndReport s m = Inr r" by (cases "applyAndReport s m") auto
  with applyAndReport_Inr[OF r] show ?thesis by simp
qed

lemma specPromotionStep_iff:
  "specPromotionStep p dst
   \<longleftrightarrow> type p = Pawn \<and> ((color p = White \<and> rank dst = 7) \<or> (color p = Black \<and> rank dst = 0))"
  by (cases "color p") (auto simp: specPromotionStep_def)

lemma makeMove_by_rule_violation:
  "(case specRuleViolation s src dst promo of
      Some msg \<Rightarrow> makeMove s src dst promo = Inr (failure msg) \<and> msg \<in> set ruleViolations
    | None \<Rightarrow>
        if specBadPromotion s src dst promo
        then makeMove s src dst promo = Inl ''Cannot promote to pawn or king''
        else (\<exists>r. makeMove s src dst promo = Inr r \<and> success r \<and> error r = None))"
proof (cases "getPiece (board s) src")
  case None
  then show ?thesis
    by (simp add: makeMove_def specRuleViolation_def ruleViolations_def)
next
  case (Some p)
  show ?thesis
  proof (cases "color p \<noteq> currentTurn s")
    case True
    with Some show ?thesis
      by (simp add: makeMove_def specRuleViolation_def ruleViolations_def)
  next
    case turn: False
    then have lm: "getLegalMovesForPiece s p = getLegalMoves p (board s) (enPassantTarget s)"
      by (simp add: getLegalMovesForPiece_def)
    show ?thesis
    proof (cases "find (\<lambda>m. equals (mto m) dst) (getLegalMovesForPiece s p)")
      case None
      then have "\<not> list_ex (\<lambda>m. equals (mto m) dst) (getLegalMoves p (board s) (enPassantTarget s))"
        unfolding lm by (simp add: find_None_iff list_ex_iff)
      with Some turn None show ?thesis
        by (simp add: makeMove_def specRuleViolation_def ruleViolations_def)
    next
      case found: (Some m)
      then have ex: "list_ex (\<lambda>m. equals (mto m) dst) (getLegalMoves p (board s) (enPassantTarget s))"
        unfolding lm by (auto simp: find_Some_iff list_ex_iff)
      from found have "m \<in> set (getLegalMovesForPiece s p)"
        by (auto simp: find_Some_iff)
      then have pm: "promotionType m = None"
        unfolding lm by (rule getLegalMoves_promotionType)
      have mm: "makeMove s src dst promo =
          (if type p = Pawn \<and> ((color p = White \<and> rank dst = 7) \<or> (color p = Black \<and> rank dst = 0))
           then (case promo of
                   None \<Rightarrow> Inr (failure ''Promotion type required'')
                 | Some pt \<Rightarrow>
                     applyAndReport s
                       \<lparr>mfrom = src, mto = dst, piece = p, capturedPiece = capturedPiece m,
                        specialMove = PawnPromotion, promotionType = Some pt\<rparr>)
           else applyAndReport s m)"
        using Some turn found by (simp add: makeMove_def)
      show ?thesis
      proof (cases "type p = Pawn \<and> ((color p = White \<and> rank dst = 7) \<or> (color p = Black \<and> rank dst = 0))")
        case False
        have ns: "\<not> specPromotionStep p dst"
          using False specPromotionStep_iff[of p dst] by blast
        have "makeMove s src dst promo = applyAndReport s m"
          unfolding mm by (rule if_not_P[OF False])
        moreover from applyMoveToBoard_plain[OF pm, of "board s"]
        obtain nb where "applyMoveToBoard (board s) m = Inr nb" by blast
        ultimately have "\<exists>r. makeMove s src dst promo = Inr r \<and> success r \<and> error r = None"
          using applyAndReport_success[of s m nb] by simp
        with Some turn ex ns show ?thesis
          by (simp add: specRuleViolation_def specBadPromotion_def)
      next
        case br: True
        have ps: "specPromotionStep p dst"
          using br specPromotionStep_iff[of p dst] by blast
        note mm' = mm[unfolded if_P[OF br]]
        show ?thesis
        proof (cases promo)
          case None
          with mm' have "makeMove s src dst promo = Inr (failure ''Promotion type required'')"
            by simp
          with Some turn ex ps None show ?thesis
            by (simp add: specRuleViolation_def ruleViolations_def)
        next
          case pr: (Some pt)
          let ?m = "\<lparr>mfrom = src, mto = dst, piece = p, capturedPiece = capturedPiece m,
                   specialMove = PawnPromotion, promotionType = Some pt\<rparr>"
          from pr mm' have mk: "makeMove s src dst promo = applyAndReport s ?m"
            by simp
          have tp: "type (piece ?m) = Pawn" "specialMove ?m = PawnPromotion" "promotionType ?m = Some pt"
            using br by simp_all
          from Some turn ex pr have rv: "specRuleViolation s src dst promo = None"
            by (simp add: specRuleViolation_def)
          show ?thesis
          proof (cases "pt = Pawn \<or> pt = King")
            case True
            from applyMoveToBoard_bad_promotion[OF tp True, of "board s"]
            have "makeMove s src dst promo = Inl ''Cannot promote to pawn or king''"
              unfolding mk by (rule applyAndReport_Inl_of_board)
            moreover from Some ps pr True have "specBadPromotion s src dst promo"
              by (simp add: specBadPromotion_def)
            ultimately show ?thesis using rv by simp
          next
            case False
            with applyMoveToBoard_promotion[OF tp, of "board s"]
            obtain nb where "applyMoveToBoard (board s) ?m = Inr nb" by blast
            then have "\<exists>r. makeMove s src dst promo = Inr r \<and> success r \<and> error r = None"
              unfolding mk by (rule applyAndReport_success)
            moreover from Some pr False have "\<not> specBadPromotion s src dst promo"
              by (simp add: specBadPromotion_def)
            ultimately show ?thesis using rv by simp
          qed
        qed
      qed
    qed
  qed
qed

lemma specBadPromotion_type:
  "specBadPromotion s src dst promo \<Longrightarrow> promo = Some Pawn \<or> promo = Some King"
  by (auto simp: specBadPromotion_def split: option.splits)

text \<open>
  C3 (as amended).  Every rule violation of a request is reported: when the source
  square is empty, the piece is not of the colour to move, no legal move has the
  destination, or a promotion lacks its type, \<open>makeMove\<close> returns the result with
  \<open>success\<close> false and the description of the first of these violations.  A request
  without a rule violation returns a success without an error, unless it promotes to a
  pawn or a king: then, and only then, \<open>makeMove\<close> throws, and the error is the one of
  \<open>Piece.promote\<close>.
\<close>

theorem makeMove_reports_every_rule_violation:
  "(specRuleViolation s src dst promo = Some msg \<longrightarrow>
      makeMove s src dst promo = Inr (failure msg)
      \<and> \<not> success (failure msg) \<and> error (failure msg) = Some msg
      \<and> msg \<in> set ruleViolations)
   \<and> (specRuleViolation s src dst promo = None \<and> \<not> specBadPromotion s src dst promo \<longrightarrow>
        (\<exists>r. makeMove s src dst promo = Inr r \<and> success r \<and> error r = None))
   \<and> (specRuleViolation s src dst promo = None \<and> specBadPromotion s src dst promo \<longrightarrow>
        makeMove s src dst promo = Inl ''Cannot promote to pawn or king'')
   \<and> (makeMove s src dst promo = Inl e \<longrightarrow>
        e = ''Cannot promote to pawn or king'' \<and> (promo = Some Pawn \<or> promo = Some King))"
proof (cases "specRuleViolation s src dst promo")
  case (Some msg')
  with makeMove_by_rule_violation[of s src dst promo]
  show ?thesis by (auto simp: failure_def)
next
  case None
  note mk = makeMove_by_rule_violation[of s src dst promo, unfolded None option.case]
  show ?thesis
  proof (cases "specBadPromotion s src dst promo")
    case True
    with mk None specBadPromotion_type[OF True] show ?thesis by auto
  next
    case False
    with mk None show ?thesis by auto
  qed
qed

text \<open>
  C3 as stated, that \<open>makeMove\<close> never throws, fails: a pawn that may step to the back
  rank, asked to promote to a king, makes \<open>applyPromotion\<close> call \<open>promote\<close>, whose error
  escapes.
\<close>

theorem makeMove_throws_on_promotion_to_king:
  "makeMove promotionGame \<lparr>pfile = 0, rank = 6\<rparr> \<lparr>pfile = 0, rank = 7\<rparr> (Some King)
     = Inl ''Cannot promote to pawn or king''"
  by code_simp

text \<open>
  The amended statement on the position with the white pawn on a7, White to move: a
  request from the empty square d4, one for the black king, the step a7 to a5, the step
  to a8 without a promotion type, the promotion to a queen and the promotion to a pawn.
\<close>

theorem makeMove_reports_every_rule_violation_witness:
  "makeMove promotionGame \<lparr>pfile = 3, rank = 3\<rparr> \<lparr>pfile = 3, rank = 4\<rparr> None
     = Inr (failure ''No piece at source position'')
   \<and> makeMove promotionGame \<lparr>pfile = 7, rank = 4\<rparr> \<lparr>pfile = 7, rank = 5\<rparr> None
     = Inr (failure ''Not your turn'')
   \<and> makeMove promotionGame \<lparr>pfile = 0, rank = 6\<rparr> \<lparr>pfile = 0, rank = 4\<rparr> None
     = Inr (failure ''Illegal move'')
   \<and> makeMove promotionGame \<lparr>pfile = 0, rank = 6\<rparr> \<lparr>pfile = 0, rank = 7\<rparr> None
     = Inr (failure ''Promotion type required'')
   \<and> specRuleViolation promotionGame \<lparr>pfile = 0, rank = 6\<rparr> \<lparr>pfile = 0, rank = 7\<rparr> (Some Queen) = None
   \<and> \<not> specBadPromotion promotionGame \<lparr>pfile = 0, rank = 6\<rparr> \<lparr>pfile = 0, rank = 7\<rparr> (Some Queen)
   \<and> (\<exists>r. makeMove promotionGame \<lparr>pfile = 0, rank = 6\<rparr> \<lparr>pfile = 0, rank = 7\<rparr> (Some Queen) = Inr r
          \<and> success r \<and> error r = None)
   \<and> specRuleViolation promotionGame \<lparr>pfile = 0, rank = 6\<rparr> \<lparr>pfile = 0, rank = 7\<rparr> (Some Pawn) = None
   \<and> specBadPromotion promotionGame \<lparr>pfile = 0, rank = 6\<rparr> \<lparr>pfile = 0, rank = 7\<rparr> (Some Pawn)
   \<and> makeMove promotionGame \<lparr>pfile = 0, rank = 6\<rparr> \<lparr>pfile = 0, rank = 7\<rparr> (Some Pawn)
       = Inl ''Cannot promote to pawn or king''"
proof -
  have v: "specRuleViolation promotionGame \<lparr>pfile = 3, rank = 3\<rparr> \<lparr>pfile = 3, rank = 4\<rparr> None
             = Some ''No piece at source position''"
    "specRuleViolation promotionGame \<lparr>pfile = 7, rank = 4\<rparr> \<lparr>pfile = 7, rank = 5\<rparr> None
             = Some ''Not your turn''"
    "specRuleViolation promotionGame \<lparr>pfile = 0, rank = 6\<rparr> \<lparr>pfile = 0, rank = 4\<rparr> None
             = Some ''Illegal move''"
    "specRuleViolation promotionGame \<lparr>pfile = 0, rank = 6\<rparr> \<lparr>pfile = 0, rank = 7\<rparr> None
             = Some ''Promotion type required''"
    "specRuleViolation promotionGame \<lparr>pfile = 0, rank = 6\<rparr> \<lparr>pfile = 0, rank = 7\<rparr> (Some Queen) = None"
    "\<not> specBadPromotion promotionGame \<lparr>pfile = 0, rank = 6\<rparr> \<lparr>pfile = 0, rank = 7\<rparr> (Some Queen)"
    "specRuleViolation promotionGame \<lparr>pfile = 0, rank = 6\<rparr> \<lparr>pfile = 0, rank = 7\<rparr> (Some Pawn) = None"
    "specBadPromotion promotionGame \<lparr>pfile = 0, rank = 6\<rparr> \<lparr>pfile = 0, rank = 7\<rparr> (Some Pawn)"
    by code_simp+
  note t = makeMove_reports_every_rule_violation[where s = promotionGame and e = undefined]
  from v
    t[where src = "\<lparr>pfile = 3, rank = 3\<rparr>" and dst = "\<lparr>pfile = 3, rank = 4\<rparr>" and promo = None
        and msg = "''No piece at source position''"]
    t[where src = "\<lparr>pfile = 7, rank = 4\<rparr>" and dst = "\<lparr>pfile = 7, rank = 5\<rparr>" and promo = None
        and msg = "''Not your turn''"]
    t[where src = "\<lparr>pfile = 0, rank = 6\<rparr>" and dst = "\<lparr>pfile = 0, rank = 4\<rparr>" and promo = None
        and msg = "''Illegal move''"]
    t[where src = "\<lparr>pfile = 0, rank = 6\<rparr>" and dst = "\<lparr>pfile = 0, rank = 7\<rparr>" and promo = None
        and msg = "''Promotion type required''"]
    t[where src = "\<lparr>pfile = 0, rank = 6\<rparr>" and dst = "\<lparr>pfile = 0, rank = 7\<rparr>" and promo = "Some Queen"
        and msg = undefined]
    t[where src = "\<lparr>pfile = 0, rank = 6\<rparr>" and dst = "\<lparr>pfile = 0, rank = 7\<rparr>" and promo = "Some Pawn"
        and msg = undefined]
  show ?thesis by simp
qed

subsection \<open>makeMove on a finished game\<close>

lemma getLegalMovesForPiece_ignores_result:
  "getLegalMovesForPiece (s\<lparr>result := res, endReason := why\<rparr>) p = getLegalMovesForPiece s p"
  by (simp add: getLegalMovesForPiece_def)

lemma applyAndReport_ignores_result:
  "applyAndReport (s\<lparr>result := res, endReason := why\<rparr>) m = applyAndReport s m"
  by (simp add: applyAndReport_def applyMove_def Let_def cong: sum.case_cong)

text \<open>
  C2 (as amended).  \<open>makeMove\<close> reads neither \<open>result\<close> nor \<open>endReason\<close>: on a state
  whose result is terminal it returns exactly what it returns on the same position in
  progress.  Turning moves away once the game is over is left to the caller.
\<close>

theorem makeMove_ignores_result:
  "makeMove (s\<lparr>result := res, endReason := why\<rparr>) src dst promo = makeMove s src dst promo"
  by (simp add: makeMove_def getLegalMovesForPiece_ignores_result applyAndReport_ignores_result
      cong: option.case_cong if_cong)

text \<open>
  C2 as stated fails: after White has resigned (the result is a win for Black), White's
  rook move to a8 is accepted, and the successor state is a win for White.
\<close>

theorem makeMove_accepts_move_after_resignation:
  "result (resign backRankGame) = BlackWin
   \<and> (case makeMove (resign backRankGame) \<lparr>pfile = 0, rank = 0\<rparr> \<lparr>pfile = 0, rank = 7\<rparr> None of
         Inl e \<Rightarrow> False
       | Inr r \<Rightarrow> success r \<and> (case newState r of None \<Rightarrow> False | Some ns \<Rightarrow> result ns = WhiteWin))"
  by code_simp

subsection \<open>End-condition detection\<close>

lemma applyMove_fields:
  assumes "applyMove s m = Inr ns"
  shows "currentTurn ns = opposite (currentTurn s)"
    and "(result ns, endReason ns)
         = checkGameEnd (board ns) (currentTurn ns) (enPassantTarget ns) (halfMoveClock ns) (moveHistory ns)"
proof -
  from assms obtain nb where nb: "applyMoveToBoard (board s) m = Inr nb"
    by (cases "applyMoveToBoard (board s) m") (auto simp: applyMove_def)
  from assms show "currentTurn ns = opposite (currentTurn s)"
    unfolding applyMove_def nb Let_def by auto
  from assms show "(result ns, endReason ns)
         = checkGameEnd (board ns) (currentTurn ns) (enPassantTarget ns) (halfMoveClock ns) (moveHistory ns)"
    unfolding applyMove_def nb Let_def by auto
qed

lemma checkGameEnd_priority:
  "checkGameEnd (board ns) (currentTurn ns) (enPassantTarget ns) (halfMoveClock ns) h
   = endConditionByPriority (opposite (currentTurn ns)) ns"
  by (cases "currentTurn ns") (simp_all add: checkGameEnd_def endConditionByPriority_def opposite_def)

lemma opposite_opposite: "opposite (opposite c) = c"
  by (cases c) (simp_all add: opposite_def)

lemma applyMove_end_condition:
  assumes "applyMove s m = Inr ns"
  shows "currentTurn ns = opposite (currentTurn s)
         \<and> (result ns, endReason ns) = endConditionByPriority (currentTurn s) ns"
  using applyMove_fields[OF assms] checkGameEnd_priority[of ns "moveHistory ns"]
  by (simp add: opposite_opposite)

text \<open>
  C6.  After every successful \<open>makeMove\<close> the new state has the other side to move, and
  its result and end reason are those of the first condition that holds on the new board
  and the new side to move, in the order checkmate (a win for the mover), stalemate,
  insufficient material, half-move clock of 100 or more; with none of them the game is
  in progress.
\<close>

theorem end_condition_priority:
  assumes "makeMove s src dst promo = Inr r" and "success r"
  shows "\<exists>ns. newState r = Some ns
              \<and> currentTurn ns = opposite (currentTurn s)
              \<and> (result ns, endReason ns) = endConditionByPriority (currentTurn s) ns"
proof (cases rule: makeMove_cases[of s src dst promo])
  case (violation msg)
  with assms show ?thesis by (auto simp: failure_def)
next
  case (plain m)
  with assms applyAndReport_Inr[of s m r] applyMove_end_condition[of s m] show ?thesis by auto
next
  case (promotion m pt)
  with assms applyAndReport_Inr[of s m r] applyMove_end_condition[of s m] show ?thesis by auto
qed

text \<open>The theorem at the back-rank mate: the rook move ends the game as a win for White.\<close>

theorem end_condition_priority_witness:
  "(case makeMove backRankGame \<lparr>pfile = 0, rank = 0\<rparr> \<lparr>pfile = 0, rank = 7\<rparr> None of
      Inl e \<Rightarrow> False
    | Inr r \<Rightarrow>
        success r
        \<and> (case newState r of
              None \<Rightarrow> False
            | Some ns \<Rightarrow>
                isCheckmate (board ns) (currentTurn ns) (enPassantTarget ns)
                \<and> currentTurn ns = Black
                \<and> result ns = WhiteWin \<and> endReason ns = Some Checkmate))"
proof -
  have ev: "(case makeMove backRankGame \<lparr>pfile = 0, rank = 0\<rparr> \<lparr>pfile = 0, rank = 7\<rparr> None of
      Inl e \<Rightarrow> False
    | Inr r \<Rightarrow>
        success r
        \<and> (case newState r of
              None \<Rightarrow> False
            | Some ns \<Rightarrow> isCheckmate (board ns) (currentTurn ns) (enPassantTarget ns)))"
    by code_simp
  then obtain r where r: "makeMove backRankGame \<lparr>pfile = 0, rank = 0\<rparr> \<lparr>pfile = 0, rank = 7\<rparr> None = Inr r"
      "success r"
    by (auto split: sum.splits)
  from end_condition_priority[OF r] obtain ns where ns: "newState r = Some ns"
      "currentTurn ns = opposite (currentTurn backRankGame)"
      "(result ns, endReason ns) = endConditionByPriority (currentTurn backRankGame) ns"
    by blast
  from ev r ns have mate: "isCheckmate (board ns) (currentTurn ns) (enPassantTarget ns)"
    by simp
  have turn: "currentTurn backRankGame = White"
    by (simp add: backRankGame_def createCustom_def)
  from ns mate turn have "result ns = WhiteWin" "endReason ns = Some Checkmate" "currentTurn ns = Black"
    by (simp_all add: endConditionByPriority_def opposite_def)
  with r ns mate show ?thesis by simp
qed

subsection \<open>GameState.fromFEN\<close>

lemma parseRow_error:
  "parseRow cr r row f pieces = Inl e \<Longrightarrow> \<exists>ch. e = ''Invalid FEN: unknown piece '' @ [ch]"
proof (induction row arbitrary: f pieces)
  case Nil
  then show ?case by simp
next
  case (Cons ch row)
  show ?case
  proof (cases "codeUnit ch \<ge> codeUnit (CHR ''1'') \<and> codeUnit ch \<le> codeUnit (CHR ''8'')")
    case True
    with Cons.prems have "parseRow cr r row (f + (codeUnit ch - 48)) pieces = Inl e"
      by simp
    then show ?thesis by (rule Cons.IH)
  next
    case False
    from Cons.prems have tail:
      "(let c = (if ch = toUpperCase ch then White else Black);
            pieceChar = toUpperCase ch
        in (case pieceTypeOfLetter pieceChar of
              None \<Rightarrow> Inl (''Invalid FEN: unknown piece '' @ [ch])
            | Some pieceType \<Rightarrow>
                parseRow cr r row (f + 1)
                  (pieces @ [\<lparr>type = pieceType, color = c, position = \<lparr>pfile = f, rank = r\<rparr>,
                              hasMoved = fenHasMoved cr pieceType c f r\<rparr>]))) = Inl e"
      by (simp only: parseRow.simps if_not_P[OF False])
    show ?thesis
    proof (cases "pieceTypeOfLetter (toUpperCase ch)")
      case None
      with tail show ?thesis by (auto simp: Let_def)
    next
      case (Some pieceType)
      with tail have "\<exists>f' pieces'. parseRow cr r row f' pieces' = Inl e"
        by (simp add: Let_def) blast
      then show ?thesis using Cons.IH by blast
    qed
  qed
qed

lemma parseRows_error:
  "parseRows cr rows r pieces = Inl e \<Longrightarrow> isInvalidFEN e"
proof (induction rows arbitrary: r pieces)
  case Nil
  then show ?case by simp
next
  case (Cons row rows)
  show ?case
  proof (cases "parseRow cr r row 0 pieces")
    case (Inl e')
    with Cons.prems have "e = e'" by simp
    with parseRow_error[OF Inl] show ?thesis by (auto simp: isInvalidFEN_def)
  next
    case (Inr fp)
    obtain f pieces' where fp: "fp = (f, pieces')" by (cases fp)
    show ?thesis
    proof (cases "f = 8")
      case True
      with Inr fp Cons.prems have "parseRows cr rows (r - 1) pieces' = Inl e" by simp
      then show ?thesis by (rule Cons.IH)
    next
      case False
      with Inr fp Cons.prems
      have "e = ''Invalid FEN: rank '' @ intToString (r + 1) @ '' has wrong number of squares''"
        by simp
      then show ?thesis unfolding isInvalidFEN_def by blast
    qed
  qed
qed

lemma boardFromFEN_error:
  "boardFromFEN fen castlingRights = Inl e \<Longrightarrow> isInvalidFEN e"
proof -
  assume a: "boardFromFEN fen castlingRights = Inl e"
  show ?thesis
  proof (cases "length (splitChar (CHR ''/'') fen) \<noteq> 8")
    case True
    with a show ?thesis by (simp add: boardFromFEN_def Let_def isInvalidFEN_def)
  next
    case False
    with a have "parseRows (parseCastlingRights castlingRights) (splitChar (CHR ''/'') fen) 7 [] = Inl e"
      by (simp add: boardFromFEN_def Let_def split: sum.splits)
    then show ?thesis by (rule parseRows_error)
  qed
qed

text \<open>
  \<open>fromFEN\<close> throws only the four structural errors: on a field count other than six,
  or what \<open>Board.fromFEN\<close> throws on the placement.
\<close>

lemma gameStateFromFEN_error:
  assumes "gameStateFromFEN fen = Inl e"
  shows "isInvalidFEN e
         \<and> (length (splitWhitespace (trim fen)) \<noteq> 6
            \<or> boardFromFEN (splitWhitespace (trim fen) ! 0) ''-'' = Inl e)"
proof (cases "length (splitWhitespace (trim fen)) \<noteq> 6")
  case True
  with assms show ?thesis by (simp add: gameStateFromFEN_def Let_def isInvalidFEN_def)
next
  case False
  with assms have b: "boardFromFEN (splitWhitespace (trim fen) ! 0) ''-'' = Inl e"
    by (simp add: gameStateFromFEN_def Let_def split: sum.splits)
  with boardFromFEN_error[OF b] show ?thesis by simp
qed

text \<open>
  With six fields and a well-formed placement \<open>fromFEN\<close> returns, whatever the other
  fields hold: counters that do not parse fall back to 0 and 1, and an en-passant field
  on which \<open>fromAlgebraic\<close> throws leaves the target unset.
\<close>

lemma gameStateFromFEN_returns:
  assumes "length (splitWhitespace (trim fen)) = 6"
    and "boardFromFEN (splitWhitespace (trim fen) ! 0) ''-'' = Inr b"
  shows "\<exists>s. gameStateFromFEN fen = Inr s
             \<and> board s = b
             \<and> currentTurn s = (if splitWhitespace (trim fen) ! 1 = ''w'' then White else Black)
             \<and> halfMoveClock s = numOr (parseInt (splitWhitespace (trim fen) ! 4)) 0
             \<and> fullMoveNumber s = numOr (parseInt (splitWhitespace (trim fen) ! 5)) 1
             \<and> (fromAlgebraic (splitWhitespace (trim fen) ! 3) = Inl e \<longrightarrow> enPassantTarget s = None)"
  using assms by (simp add: gameStateFromFEN_def Let_def)

lemma numOr_NaN: "numOr NaN d = d"
  by (simp add: numOr_def)

lemma parseInt_no_digit:
  assumes "s \<noteq> []" and "\<not> isWhiteSpace (hd s)" and "hd s \<noteq> CHR ''-''" and "hd s \<noteq> CHR ''+''"
    and "\<not> isDigit (hd s)"
  shows "parseInt s = NaN"
proof -
  from assms obtain c r where s: "s = c # r" by (cases s) auto
  with assms show ?thesis by (simp add: parseInt_def Let_def)
qed

text \<open>
  C9.  \<open>fromFEN\<close> is to leave the en-passant target unset on a malformed en-passant
  field.  On the field \<open>ax\<close> it does not: \<open>fromAlgebraic\<close> returns a position with the
  rank \<open>NaN\<close> instead of throwing, and the state carries that position as its target.
\<close>

theorem fromFEN_keeps_malformed_en_passant:
  "(case gameStateFromFEN ''4k3/8/8/3PP3/8/8/8/4K3 w - ax 0 1'' of
      Inl e \<Rightarrow> False
    | Inr s \<Rightarrow> enPassantTarget s = Some \<lparr>parsedFile = 0, parsedRank = NaN\<rparr>)"
  by code_simp

end
